theory Spec2Isabelle
  imports Main
begin

section \<open>The fetch-profile edge function\<close>

text \<open>
  A shallow embedding of the request handler of
  \<^verbatim>\<open>supabase/functions/fetch-profile/index.ts\<close> (lines 1 to 180). The handler talks
  to two collaborators: the Battle.net profile API (through \<^verbatim>\<open>fetch\<close>) and the record
  store (through the supabase client \<^verbatim>\<open>sb\<close>). Both are modelled as an environment
  that answers each call; the handler is a function from the environment and the request
  to the response together with the list of calls it issued, in order.
  Strings are lists of characters; \<^verbatim>\<open>null\<close> and \<^verbatim>\<open>undefined\<close> are both \<open>None\<close>.
\<close>

subsection \<open>Remote payloads\<close>

text \<open>The \<^verbatim>\<open>guild\<close> object of a payload: \<^verbatim>\<open>guild.name\<close> and \<^verbatim>\<open>guild.realm.slug\<close>.\<close>

record guild_ref =
  gr_name :: string
  gr_realm_slug :: string

text \<open>
  One entry of \<^verbatim>\<open>wow_accounts[i].characters\<close>. The handler reads \<^verbatim>\<open>name\<close>,
  \<^verbatim>\<open>realm.slug\<close>, \<^verbatim>\<open>playable_class.id\<close>, \<^verbatim>\<open>playable_race.id\<close>, \<^verbatim>\<open>level\<close> and, in the
  linking loop, \<^verbatim>\<open>guild?.name\<close> and \<^verbatim>\<open>guild?.realm.slug\<close>. \<open>rc_region\<close> stands for a
  region the payload may report for the character; no line of the handler reads it.
\<close>

record remote_character =
  rc_name :: string
  rc_realm_slug :: string
  rc_class_id :: int
  rc_race_id :: int
  rc_level :: int
  rc_guild :: "guild_ref option"
  rc_region :: "string option"

record wow_account =
  wa_characters :: "remote_character list option"

record account_profile =
  wow_accounts :: "wow_account list option"

text \<open>The character profile document; only \<^verbatim>\<open>guild\<close> is read.\<close>

record character_profile =
  cp_guild :: "guild_ref option"

text \<open>
  The outcome of an awaited \<^verbatim>\<open>fetch\<close> (and of \<^verbatim>\<open>json()\<close> on its body): the promise
  rejects, or a response with a status and a decoded body arrives.
\<close>

datatype 'a fetch_result = Rejects | Responds nat 'a

definition ok :: "nat \<Rightarrow> bool" where
  "ok st = (200 \<le> st \<and> st \<le> 299)"

subsection \<open>Store rows and answers\<close>

record user_row =
  u_id :: string
  u_battletag :: string
  u_access_token :: string

record guild_row =
  g_name :: string
  g_realm_slug :: string
  g_region :: string

record char_row =
  c_name :: string
  c_realm_slug :: string
  c_region :: string
  c_user_id :: string
  c_level :: int
  c_class_id :: int
  c_race_id :: int
  c_guild_id :: "string option"

text \<open>Rows returned by \<^verbatim>\<open>.select("id, name, realm_slug, region")\<close> after the guild upsert.\<close>

record stored_guild =
  sg_id :: string
  sg_name :: string
  sg_realm_slug :: string
  sg_region :: string

text \<open>Rows returned by \<^verbatim>\<open>.select("name, realm_slug, region").eq("user_id", ...)\<close>.\<close>

record existing_char =
  ec_name :: string
  ec_realm_slug :: string
  ec_region :: string

text \<open>The \<^verbatim>\<open>{ data, error }\<close> answer of the supabase client.\<close>

record 'a sb_result =
  sb_data :: "'a option"
  sb_error :: "string option"

datatype user_filter = ById string | ByBattlenetId string

subsection \<open>Request, environment, calls and responses\<close>

record request =
  user_id_param :: "string option"
  battlenet_id_param :: "string option"

text \<open>
  The environment of a run: the two configuration variables, the runtime's
  \<^verbatim>\<open>String.prototype.toLowerCase\<close> and the answers of the store and of the remote service.
  The case mapping is a parameter because it is the runtime's (Unicode) mapping, which the
  representation of strings does not determine; nothing is assumed about it.
\<close>

record env =
  env_region :: "string option"
  env_locale :: "string option"
  toLowerCase :: "string \<Rightarrow> string"
  users_select :: "user_filter \<Rightarrow> user_row sb_result"
  fetch_account :: "string \<Rightarrow> string \<Rightarrow> string \<Rightarrow> account_profile fetch_result"
  fetch_character :: "string \<Rightarrow> string \<Rightarrow> string \<Rightarrow> character_profile fetch_result"
  guilds_upsert :: "guild_row list \<Rightarrow> stored_guild list sb_result"
  characters_upsert :: "char_row list \<Rightarrow> unit sb_result"
  characters_select :: "string \<Rightarrow> existing_char list sb_result"

text \<open>
  The calls the handler issues. \<open>DeleteCharacter uid n r g\<close> is
  \<^verbatim>\<open>delete().match({ user_id: uid, name: n, realm_slug: r, region: g })\<close>.
\<close>

datatype event =
    SelectUser user_filter
  | FetchAccount string string string
  | FetchCharacter string string string
  | UpsertGuilds "guild_row list"
  | UpsertCharacters "char_row list"
  | SelectCharacters string
  | DeleteCharacter string string string string

fun is_write :: "event \<Rightarrow> bool" where
  "is_write (UpsertGuilds _) = True"
| "is_write (UpsertCharacters _) = True"
| "is_write (DeleteCharacter _ _ _ _) = True"
| "is_write _ = False"

text \<open>
  The responses of the handler: 400, 404, 401, the two 500s (account fetch failed; the
  \<^verbatim>\<open>catch\<close> block) and 200 with the user's battletag and \<^verbatim>\<open>charRows.length\<close>.
\<close>

datatype response =
    MissingIdentifier
  | UserNotFound
  | TokenInvalid
  | AccountFetchFailed
  | SyncFailed
  | SyncCompleted string nat

fun status :: "response \<Rightarrow> nat" where
  "status MissingIdentifier = 400"
| "status UserNotFound = 404"
| "status TokenInvalid = 401"
| "status AccountFetchFailed = 500"
| "status SyncFailed = 500"
| "status (SyncCompleted _ _) = 200"

subsection \<open>Configuration and small helpers\<close>

text \<open>\<^verbatim>\<open>Deno.env.get(k) || d\<close>: an unset or empty variable gives the default.\<close>

definition or_default :: "string option \<Rightarrow> string \<Rightarrow> string" where
  "or_default v d = (case v of None \<Rightarrow> d | Some s \<Rightarrow> if s = [] then d else s)"

definition LOCALE :: "env \<Rightarrow> string" where
  "LOCALE e = or_default (env_locale e) ''en_US''"

definition BLIZZARD_API_REGION :: "env \<Rightarrow> string" where
  "BLIZZARD_API_REGION e = or_default (env_region e) ''us''"

text \<open>\<^verbatim>\<open>!param\<close> on a query parameter: absent or empty.\<close>

definition falsy :: "string option \<Rightarrow> bool" where
  "falsy p = (p = None \<or> p = Some [])"

text \<open>The template \<^verbatim>\<open>`${name}|${realm_slug}|${region}`\<close>, used for guilds and characters.\<close>

definition composite_key :: "string \<Rightarrow> string \<Rightarrow> string \<Rightarrow> string" where
  "composite_key n r g = n @ ''|'' @ r @ ''|'' @ g"

subsection \<open>Steps of the handler\<close>

text \<open>Lines 52 to 58: the characters of all game accounts, concatenated.\<close>

definition allCharacters_of :: "account_profile \<Rightarrow> remote_character list" where
  "allCharacters_of p =
     concat (map (\<lambda>wa. case wa_characters wa of None \<Rightarrow> [] | Some cs \<Rightarrow> cs)
       (case wow_accounts p of None \<Rightarrow> [] | Some was \<Rightarrow> was))"

text \<open>Lines 95 to 105: the row pushed for a character; \<^verbatim>\<open>guild_id\<close> is not set yet.\<close>

definition charRow :: "env \<Rightarrow> user_row \<Rightarrow> remote_character \<Rightarrow> char_row" where
  "charRow e u ch =
     \<lparr> c_name = rc_name ch, c_realm_slug = rc_realm_slug ch,
       c_region = BLIZZARD_API_REGION e, c_user_id = u_id u,
       c_level = rc_level ch, c_class_id = rc_class_id ch, c_race_id = rc_race_id ch,
       c_guild_id = None \<rparr>"

text \<open>Lines 78 to 93: the guild rows pushed for one character profile response.\<close>

definition pushedGuilds :: "env \<Rightarrow> character_profile fetch_result \<Rightarrow> guild_row list" where
  "pushedGuilds e res =
     (case res of
        Rejects \<Rightarrow> []
      | Responds st prof \<Rightarrow>
          if ok st then
            (case cp_guild prof of
               None \<Rightarrow> []
             | Some gd \<Rightarrow> [\<lparr> g_name = gr_name gd, g_realm_slug = gr_realm_slug gd,
                             g_region = BLIZZARD_API_REGION e \<rparr>])
          else [])"

text \<open>The character profile request of line 75, for one character.\<close>

definition charProfileRes :: "env \<Rightarrow> remote_character \<Rightarrow> character_profile fetch_result" where
  "charProfileRes e ch =
     fetch_character e (BLIZZARD_API_REGION e) (rc_realm_slug ch) (toLowerCase e (rc_name ch))"

text \<open>
  Lines 66 to 106: the loop over \<^verbatim>\<open>allCharacters\<close>. It returns the calls issued and,
  unless an awaited fetch rejected (which leaves the loop for the \<^verbatim>\<open>catch\<close> block),
  \<^verbatim>\<open>charRows\<close> and \<^verbatim>\<open>guildRows\<close> in push order.
\<close>

fun detail_loop ::
  "env \<Rightarrow> user_row \<Rightarrow> remote_character list \<Rightarrow>
     event list \<times> (char_row list \<times> guild_row list) option" where
  "detail_loop e u [] = ([], Some ([], []))"
| "detail_loop e u (ch # chs) =
     (let ev = FetchCharacter (BLIZZARD_API_REGION e) (rc_realm_slug ch) (toLowerCase e (rc_name ch))
      in case charProfileRes e ch of
           Rejects \<Rightarrow> ([ev], None)
         | Responds st prof \<Rightarrow>
             (case detail_loop e u chs of
                (evs, None) \<Rightarrow> (ev # evs, None)
              | (evs, Some (crs, grs)) \<Rightarrow>
                  (ev # evs,
                   Some (charRow e u ch # crs, pushedGuilds e (Responds st prof) @ grs))))"

text \<open>
  \<^verbatim>\<open>uniqueGuilds[key] = g\<close> on an object with string keys: a new key is appended, an
  existing key keeps its position and takes the new value. \<^verbatim>\<open>Object.values\<close> lists the
  values in that order (no key is an array index: each contains \<^verbatim>\<open>|\<close>).
\<close>

fun obj_set :: "string \<Rightarrow> 'v \<Rightarrow> (string \<times> 'v) list \<Rightarrow> (string \<times> 'v) list" where
  "obj_set k v [] = [(k, v)]"
| "obj_set k v ((k', v') # kvs) =
     (if k' = k then (k, v) # kvs else (k', v') # obj_set k v kvs)"

definition guild_key :: "guild_row \<Rightarrow> string" where
  "guild_key g = composite_key (g_name g) (g_realm_slug g) (g_region g)"

text \<open>Lines 112 to 117.\<close>

definition uniqueGuilds :: "guild_row list \<Rightarrow> (string \<times> guild_row) list" where
  "uniqueGuilds guildRows = foldl (\<lambda>obj g. obj_set (guild_key g) g obj) [] guildRows"

definition guildsToUpsert :: "guild_row list \<Rightarrow> guild_row list" where
  "guildsToUpsert guildRows = map snd (uniqueGuilds guildRows)"

text \<open>Lines 122 to 126: the map from composite key to id, later rows overwriting.\<close>

definition guildIdMap_of :: "stored_guild list option \<Rightarrow> (string \<rightharpoonup> string)" where
  "guildIdMap_of upsertedGuilds =
     (case upsertedGuilds of
        None \<Rightarrow> Map.empty
      | Some gs \<Rightarrow>
          foldl (\<lambda>m g. m(composite_key (sg_name g) (sg_realm_slug g) (sg_region g) \<mapsto> sg_id g))
            Map.empty gs)"

text \<open>
  Lines 132 to 139: \<^verbatim>\<open>guildRows.find(g => allCharacters.find(ac => ...))\<close>. The inner
  \<^verbatim>\<open>find\<close> compares \<^verbatim>\<open>ac.guild?.name\<close> and \<^verbatim>\<open>ac.guild?.realm.slug\<close>, that is the
  \<^verbatim>\<open>guild\<close> of the account summary entry, with the guild row.
\<close>

definition characterGuild ::
  "remote_character list \<Rightarrow> guild_row list \<Rightarrow> char_row \<Rightarrow> guild_row option" where
  "characterGuild allCharacters guildRows c =
     List.find (\<lambda>g.
       List.find (\<lambda>ac.
         rc_name ac = c_name c \<and> rc_realm_slug ac = c_realm_slug c \<and>
         map_option gr_name (rc_guild ac) = Some (g_name g) \<and>
         map_option gr_realm_slug (rc_guild ac) = Some (g_realm_slug g)) allCharacters \<noteq> None)
       guildRows"

text \<open>
  \<^verbatim>\<open>characterGuild.guild\<close>: \<^verbatim>\<open>characterGuild\<close> is an element of \<^verbatim>\<open>guildRows\<close>, an object
  built at lines 85 to 89 with the properties \<^verbatim>\<open>name\<close>, \<^verbatim>\<open>realm_slug\<close> and \<^verbatim>\<open>region\<close>
  only, so its \<^verbatim>\<open>guild\<close> property is \<^verbatim>\<open>undefined\<close>.
\<close>

definition guild_prop :: "guild_row \<Rightarrow> guild_ref option" where
  "guild_prop g = None"

text \<open>
  Lines 141 to 150 for one row. \<open>None\<close> is the \<^verbatim>\<open>TypeError\<close> of reading \<^verbatim>\<open>.name\<close> of
  \<^verbatim>\<open>undefined\<close> at line 142; \<^verbatim>\<open>if (guildIdMap[guildKey])\<close> is false for a missing key and
  for an empty id.
\<close>

definition link_row ::
  "(string \<rightharpoonup> string) \<Rightarrow> remote_character list \<Rightarrow> guild_row list \<Rightarrow> char_row \<Rightarrow>
     char_row option" where
  "link_row guildIdMap allCharacters guildRows c =
     (case characterGuild allCharacters guildRows c of
        None \<Rightarrow> Some (c\<lparr> c_guild_id := None \<rparr>)
      | Some cg \<Rightarrow>
          (case guild_prop cg of
             None \<Rightarrow> None
           | Some gd \<Rightarrow>
               (let guildKey = composite_key (gr_name gd) (gr_realm_slug gd) (c_region c)
                in case guildIdMap guildKey of
                     None \<Rightarrow> Some (c\<lparr> c_guild_id := None \<rparr>)
                   | Some i \<Rightarrow>
                       if i = [] then Some (c\<lparr> c_guild_id := None \<rparr>)
                       else Some (c\<lparr> c_guild_id := Some i \<rparr>))))"

text \<open>Lines 130 to 151: the loop over \<^verbatim>\<open>charRows\<close>; the first throw ends it.\<close>

fun link_loop ::
  "(string \<rightharpoonup> string) \<Rightarrow> remote_character list \<Rightarrow> guild_row list \<Rightarrow> char_row list \<Rightarrow>
     char_row list option" where
  "link_loop guildIdMap allCharacters guildRows [] = Some []"
| "link_loop guildIdMap allCharacters guildRows (c # cs) =
     (case link_row guildIdMap allCharacters guildRows c of
        None \<Rightarrow> None
      | Some c' \<Rightarrow>
          (case link_loop guildIdMap allCharacters guildRows cs of
             None \<Rightarrow> None
           | Some cs' \<Rightarrow> Some (c' # cs')))"

text \<open>Line 161: the keys of the current roster, under the configured region.\<close>

definition currentCharKeys :: "env \<Rightarrow> remote_character list \<Rightarrow> string list" where
  "currentCharKeys e allCharacters =
     map (\<lambda>c. composite_key (rc_name c) (rc_realm_slug c) (BLIZZARD_API_REGION e)) allCharacters"

text \<open>
  Lines 162 to 173: read the rows of this user and delete those whose key is not a
  roster key. The answers of the deletes are not inspected.
\<close>

definition cleanup :: "env \<Rightarrow> user_row \<Rightarrow> remote_character list \<Rightarrow> event list" where
  "cleanup e u allCharacters =
     SelectCharacters (u_id u) #
     (case sb_data (characters_select e (u_id u)) of
        None \<Rightarrow> []
      | Some existingChars \<Rightarrow>
          map (\<lambda>ch. DeleteCharacter (u_id u) (ec_name ch) (ec_realm_slug ch) (ec_region ch))
            (filter (\<lambda>ch. composite_key (ec_name ch) (ec_realm_slug ch) (ec_region ch)
                             \<notin> set (currentCharKeys e allCharacters))
               existingChars))"

text \<open>Lines 129 to 175: link, upsert the characters, clean up, answer.\<close>

definition link_and_store ::
  "env \<Rightarrow> user_row \<Rightarrow> remote_character list \<Rightarrow> char_row list \<Rightarrow> guild_row list \<Rightarrow>
     (string \<rightharpoonup> string) \<Rightarrow> response \<times> event list" where
  "link_and_store e u allCharacters charRows guildRows guildIdMap =
     (case link_loop guildIdMap allCharacters guildRows charRows of
        None \<Rightarrow> (SyncFailed, [])
      | Some linked \<Rightarrow>
          if sb_error (characters_upsert e linked) \<noteq> None
          then (SyncFailed, [UpsertCharacters linked])
          else (SyncCompleted (u_battletag u) (length linked),
                UpsertCharacters linked # cleanup e u allCharacters))"

text \<open>Lines 108 to 175: the guild upsert, guarded by \<^verbatim>\<open>guildRows.length > 0\<close>, then the rest.\<close>

definition store_phase ::
  "env \<Rightarrow> user_row \<Rightarrow> remote_character list \<Rightarrow> char_row list \<Rightarrow> guild_row list \<Rightarrow>
     response \<times> event list" where
  "store_phase e u allCharacters charRows guildRows =
     (if guildRows \<noteq> [] then
        (let res = guilds_upsert e (guildsToUpsert guildRows) in
         if sb_error res \<noteq> None
         then (SyncFailed, [UpsertGuilds (guildsToUpsert guildRows)])
         else
           (let (resp, evs) = link_and_store e u allCharacters charRows guildRows
                                (guildIdMap_of (sb_data res))
            in (resp, UpsertGuilds (guildsToUpsert guildRows) # evs)))
      else link_and_store e u allCharacters charRows guildRows Map.empty)"

text \<open>Lines 39 to 175: everything after the user record was read.\<close>

definition sync :: "env \<Rightarrow> user_row \<Rightarrow> response \<times> event list" where
  "sync e u =
     (let ev = FetchAccount (BLIZZARD_API_REGION e) (LOCALE e) (u_access_token u) in
      case fetch_account e (BLIZZARD_API_REGION e) (LOCALE e) (u_access_token u) of
        Rejects \<Rightarrow> (SyncFailed, [ev])
      | Responds st accountProfile \<Rightarrow>
          if \<not> ok st then
            (if st = 401 then (TokenInvalid, [ev]) else (AccountFetchFailed, [ev]))
          else
            (let allCharacters = allCharacters_of accountProfile in
             case detail_loop e u allCharacters of
               (evs, None) \<Rightarrow> (SyncFailed, ev # evs)
             | (evs, Some (charRows, guildRows)) \<Rightarrow>
                 (let (resp, evs') = store_phase e u allCharacters charRows guildRows
                  in (resp, ev # evs @ evs'))))"

text \<open>
  Lines 25 to 30. The handler reaches them only when one of the two parameters is
  present and not empty.
\<close>

definition userFilter :: "request \<Rightarrow> user_filter" where
  "userFilter req =
     (if \<not> falsy (user_id_param req)
      then ById (case user_id_param req of None \<Rightarrow> [] | Some s \<Rightarrow> s)
      else ByBattlenetId (case battlenet_id_param req of None \<Rightarrow> [] | Some s \<Rightarrow> s))"

text \<open>
  Lines 10 to 180: the handler. Creating the client at line 21 issues no call; every
  exception thrown inside the \<^verbatim>\<open>try\<close> block ends in the \<^verbatim>\<open>catch\<close> block, that is in
  \<open>SyncFailed\<close>.
\<close>

definition handler :: "env \<Rightarrow> request \<Rightarrow> response \<times> event list" where
  "handler e req =
     (if falsy (user_id_param req) \<and> falsy (battlenet_id_param req)
      then (MissingIdentifier, [])
      else
        (let res = users_select e (userFilter req) in
         if sb_error res \<noteq> None then (UserNotFound, [SelectUser (userFilter req)])
         else
           (case sb_data res of
              None \<Rightarrow> (UserNotFound, [SelectUser (userFilter req)])
            | Some userData \<Rightarrow>
                (let (resp, evs) = sync e userData
                 in (resp, SelectUser (userFilter req) # evs)))))"

subsection \<open>The spec's comparison key\<close>

text \<open>
  Section 4.2 of the specification words the natural key of a character as the triple
  of name, realm slug and region, "with name case-normalized (lowercased) only for
  comparison purposes". This definition follows those words; it is not taken from the
  handler, and is used only to compare the handler with them.
\<close>

definition naturalKey_spec ::
  "env \<Rightarrow> string \<Rightarrow> string \<Rightarrow> string \<Rightarrow> string \<times> string \<times> string" where
  "naturalKey_spec e n r g = (toLowerCase e n, r, g)"

subsection \<open>Example environments\<close>

text \<open>
  The case mapping of the example environments: it lowers the 26 ASCII capitals and
  leaves every other character alone. On the names of the examples, which are ASCII, it
  is what \<^verbatim>\<open>String.prototype.toLowerCase\<close> returns.
\<close>

definition ascii_toLowerCase_char :: "char \<Rightarrow> char" where
  "ascii_toLowerCase_char c =
     (case map_of (zip ''ABCDEFGHIJKLMNOPQRSTUVWXYZ'' ''abcdefghijklmnopqrstuvwxyz'') c of
        None \<Rightarrow> c
      | Some l \<Rightarrow> l)"

definition ascii_toLowerCase :: "string \<Rightarrow> string" where
  "ascii_toLowerCase s = map ascii_toLowerCase_char s"

definition user1 :: user_row where
  "user1 = \<lparr> u_id = ''u1'', u_battletag = ''Tag#1'', u_access_token = ''tok'' \<rparr>"

definition req1 :: request where
  "req1 = \<lparr> user_id_param = Some ''u1'', battlenet_id_param = None \<rparr>"

definition req_none :: request where
  "req_none = \<lparr> user_id_param = None, battlenet_id_param = None \<rparr>"

definition thrall :: remote_character where
  "thrall = \<lparr> rc_name = ''Thrall'', rc_realm_slug = ''icecrown'', rc_class_id = 7,
     rc_race_id = 2, rc_level = 60, rc_guild = None, rc_region = Some ''eu'' \<rparr>"

definition jaina :: remote_character where
  "jaina = \<lparr> rc_name = ''Jaina'', rc_realm_slug = ''area52'', rc_class_id = 8,
     rc_race_id = 1, rc_level = 70, rc_guild = None, rc_region = None \<rparr>"

definition anduin :: remote_character where
  "anduin = \<lparr> rc_name = ''Anduin'', rc_realm_slug = ''area52'', rc_class_id = 5,
     rc_race_id = 1, rc_level = 65, rc_guild = None, rc_region = None \<rparr>"

definition horde_vanguard :: guild_ref where
  "horde_vanguard = \<lparr> gr_name = ''Horde Vanguard'', gr_realm_slug = ''icecrown'' \<rparr>"

definition alpha :: guild_ref where
  "alpha = \<lparr> gr_name = ''Alpha'', gr_realm_slug = ''area52'' \<rparr>"

text \<open>
  A store that finds \<open>user1\<close>, answers the guild upsert with one row per row sent (the id
  is \<^verbatim>\<open>id-\<close> followed by the guild name), accepts the character upsert and lists the
  given rows as owned by the user; a remote service with the given roster and the given
  answers to the character profile requests.
\<close>

definition example_env ::
  "remote_character list \<Rightarrow> (string \<Rightarrow> string \<Rightarrow> character_profile fetch_result) \<Rightarrow>
     existing_char list \<Rightarrow> env" where
  "example_env roster detail existing =
     \<lparr> env_region = None, env_locale = None, toLowerCase = ascii_toLowerCase,
       users_select = (\<lambda>f. \<lparr> sb_data = Some user1, sb_error = None \<rparr>),
       fetch_account = (\<lambda>r l t.
         Responds 200 \<lparr> wow_accounts = Some [\<lparr> wa_characters = Some roster \<rparr>] \<rparr>),
       fetch_character = (\<lambda>r. detail),
       guilds_upsert = (\<lambda>rows.
         \<lparr> sb_data = Some (map (\<lambda>g. \<lparr> sg_id = ''id-'' @ g_name g, sg_name = g_name g,
                                       sg_realm_slug = g_realm_slug g, sg_region = g_region g \<rparr>) rows),
           sb_error = None \<rparr>),
       characters_upsert = (\<lambda>rows. \<lparr> sb_data = None, sb_error = None \<rparr>),
       characters_select = (\<lambda>uid. \<lparr> sb_data = Some existing, sb_error = None \<rparr>) \<rparr>"

text \<open>Thrall's profile reports the guild Horde Vanguard; nothing is stored yet.\<close>

definition env_thrall :: env where
  "env_thrall = example_env [thrall] (\<lambda>s n. Responds 200 \<lparr> cp_guild = Some horde_vanguard \<rparr>) []"

text \<open>
  As \<open>env_thrall\<close>, but the account summary entry of Thrall itself carries the guild
  object (the live account summary does not; the handler reads it all the same).
\<close>

definition thrall_with_guild :: remote_character where
  "thrall_with_guild = thrall\<lparr> rc_guild := Some horde_vanguard \<rparr>"

definition env_summary_guild :: env where
  "env_summary_guild =
     example_env [thrall_with_guild] (\<lambda>s n. Responds 200 \<lparr> cp_guild = Some horde_vanguard \<rparr>) []"

text \<open>Jaina and Anduin both report the guild Alpha on area52.\<close>

definition env_alpha :: env where
  "env_alpha = example_env [jaina, anduin] (\<lambda>s n. Responds 200 \<lparr> cp_guild = Some alpha \<rparr>) []"

text \<open>As \<open>env_thrall\<close>, but the store rejects the guild upsert.\<close>

definition env_guild_failure :: env where
  "env_guild_failure =
     env_thrall\<lparr> guilds_upsert := (\<lambda>rows. \<lparr> sb_data = None, sb_error = Some ''write failed'' \<rparr>) \<rparr>"

text \<open>The account profile request is answered with 401.\<close>

definition env_unauthorized :: env where
  "env_unauthorized =
     env_thrall\<lparr> fetch_account := (\<lambda>r l t. Responds 401 \<lparr> wow_accounts = None \<rparr>) \<rparr>"

text \<open>The character profile request rejects (a transport error).\<close>

definition env_detail_rejects :: env where
  "env_detail_rejects = example_env [thrall] (\<lambda>s n. Rejects) []"

text \<open>
  Thrall's profile reports the guild Horde Vanguard, Jaina's profile request is answered
  with 404 and Anduin's profile reports no guild; the store lists no character of the user.
\<close>

definition env_mixed :: env where
  "env_mixed =
     example_env [thrall, jaina, anduin]
       (\<lambda>s n. if n = ''thrall'' then Responds 200 \<lparr> cp_guild = Some horde_vanguard \<rparr>
               else if n = ''jaina'' then Responds 404 \<lparr> cp_guild = None \<rparr>
               else Responds 200 \<lparr> cp_guild = None \<rparr>) []"

text \<open>
  The roster is Thrall alone, on icecrown; the store lists as owned by the user that
  Thrall, an older character, Garrosh, and a character named Thrall on another realm.
\<close>

definition stored_thrall :: existing_char where
  "stored_thrall = \<lparr> ec_name = ''Thrall'', ec_realm_slug = ''icecrown'', ec_region = ''us'' \<rparr>"

definition stored_garrosh :: existing_char where
  "stored_garrosh = \<lparr> ec_name = ''Garrosh'', ec_realm_slug = ''icecrown'', ec_region = ''us'' \<rparr>"

definition stored_thrall_area52 :: existing_char where
  "stored_thrall_area52 = \<lparr> ec_name = ''Thrall'', ec_realm_slug = ''area52'', ec_region = ''us'' \<rparr>"

definition env_orphan :: env where
  "env_orphan =
     example_env [thrall] (\<lambda>s n. Responds 200 \<lparr> cp_guild = None \<rparr>)
       [stored_thrall, stored_garrosh, stored_thrall_area52]"

text \<open>
  The region is configured as \<^verbatim>\<open>kr\<close>. The roster is Thrall, whose profile reports the
  guild Horde Vanguard; the store lists Thrall on icecrown twice as owned by the user,
  once under the region \<^verbatim>\<open>us\<close> and once under \<^verbatim>\<open>kr\<close>.
\<close>

definition stored_thrall_kr :: existing_char where
  "stored_thrall_kr = \<lparr> ec_name = ''Thrall'', ec_realm_slug = ''icecrown'', ec_region = ''kr'' \<rparr>"

definition env_kr :: env where
  "env_kr =
     (example_env [thrall] (\<lambda>s n. Responds 200 \<lparr> cp_guild = Some horde_vanguard \<rparr>)
        [stored_thrall, stored_thrall_kr])\<lparr> env_region := Some ''kr'' \<rparr>"

text \<open>The roster is empty; the store lists two characters as owned by the user.\<close>

definition env_empty_roster :: env where
  "env_empty_roster =
     example_env [] (\<lambda>s n. Responds 200 \<lparr> cp_guild = None \<rparr>) [stored_thrall, stored_garrosh]"

text \<open>The roster is Thrall; the store lists the same character with the name in lower case.\<close>

definition stored_thrall_lower :: existing_char where
  "stored_thrall_lower = \<lparr> ec_name = ''thrall'', ec_realm_slug = ''icecrown'', ec_region = ''us'' \<rparr>"

definition env_lower_case :: env where
  "env_lower_case =
     example_env [thrall] (\<lambda>s n. Responds 200 \<lparr> cp_guild = None \<rparr>) [stored_thrall_lower]"

section \<open>Properties of the steps\<close>

subsection \<open>The character profile loop\<close>

lemma detail_loop_snd:
  "snd (detail_loop e u chs) =
     (if \<forall>ch \<in> set chs. charProfileRes e ch \<noteq> Rejects
      then Some (map (charRow e u) chs,
                 concat (map (\<lambda>ch. pushedGuilds e (charProfileRes e ch)) chs))
      else None)"
proof (induction chs)
  case Nil
  show ?case by simp
next
  case (Cons ch chs)
  obtain evs r where dl: "detail_loop e u chs = (evs, r)"
    by (cases "detail_loop e u chs")
  show ?case
  proof (cases "charProfileRes e ch")
    case Rejects
    then show ?thesis by (simp add: Let_def)
  next
    case (Responds st prof)
    show ?thesis
    proof (cases "\<forall>c \<in> set chs. charProfileRes e c \<noteq> Rejects")
      case True
      with Cons.IH dl have "r = Some (map (charRow e u) chs,
          concat (map (\<lambda>ch. pushedGuilds e (charProfileRes e ch)) chs))"
        by simp
      with dl Responds True show ?thesis by (simp add: Let_def)
    next
      case False
      with Cons.IH dl have "r = None" by simp
      with dl Responds False show ?thesis by (simp add: Let_def)
    qed
  qed
qed

lemma detail_loop_fst:
  "set (fst (detail_loop e u chs)) \<subseteq>
     (\<lambda>ch. FetchCharacter (BLIZZARD_API_REGION e) (rc_realm_slug ch) (toLowerCase e (rc_name ch)))
       ` set chs"
  by (induction chs)
     (auto simp: Let_def split: fetch_result.split prod.split option.split)

lemma pushedGuilds_region:
  "g \<in> set (pushedGuilds e res) \<Longrightarrow> g_region g = BLIZZARD_API_REGION e"
proof (cases res)
  case Rejects
  assume "g \<in> set (pushedGuilds e res)"
  with Rejects show ?thesis by (simp add: pushedGuilds_def)
next
  case (Responds st prof)
  assume g: "g \<in> set (pushedGuilds e res)"
  show ?thesis
  proof (cases "cp_guild prof")
    case None
    with g Responds show ?thesis by (cases "ok st") (simp_all add: pushedGuilds_def)
  next
    case (Some gd)
    with g Responds show ?thesis by (cases "ok st") (simp_all add: pushedGuilds_def)
  qed
qed

subsection \<open>Deduplication of the guild rows\<close>

lemma obj_set_mem:
  "(k', v') \<in> set (obj_set k v kvs) \<Longrightarrow> (k', v') = (k, v) \<or> (k', v') \<in> set kvs"
  by (induction kvs) (auto split: if_splits)

lemma obj_set_keys:
  "fst ` set (obj_set k v kvs) = insert k (fst ` set kvs)"
proof (induction kvs)
  case Nil
  show ?case by simp
next
  case (Cons p kvs)
  obtain k' v' where p: "p = (k', v')" by (cases p)
  show ?case using Cons.IH by (cases "k' = k") (simp_all add: p insert_commute)
qed

lemma obj_set_distinct:
  "distinct (map fst kvs) \<Longrightarrow> distinct (map fst (obj_set k v kvs))"
proof (induction kvs)
  case Nil
  show ?case by simp
next
  case (Cons p kvs)
  obtain k' v' where p: "p = (k', v')" by (cases p)
  show ?case using Cons by (cases "k' = k") (simp_all add: p obj_set_keys)
qed

lemma foldl_obj_set_mem:
  "(k, g) \<in> set (foldl (\<lambda>obj g. obj_set (guild_key g) g obj) acc grs) \<Longrightarrow>
     (k, g) \<in> set acc \<or> (g \<in> set grs \<and> k = guild_key g)"
  by (induction grs arbitrary: acc) (auto dest: obj_set_mem)

lemma foldl_obj_set_keys:
  "fst ` set (foldl (\<lambda>obj g. obj_set (guild_key g) g obj) acc grs) =
     fst ` set acc \<union> guild_key ` set grs"
  by (induction grs arbitrary: acc) (simp_all add: obj_set_keys)

lemma foldl_obj_set_distinct:
  "distinct (map fst acc) \<Longrightarrow>
     distinct (map fst (foldl (\<lambda>obj g. obj_set (guild_key g) g obj) acc grs))"
  by (induction grs arbitrary: acc) (auto simp: obj_set_distinct)

lemma uniqueGuilds_mem:
  "(k, g) \<in> set (uniqueGuilds grs) \<Longrightarrow> g \<in> set grs \<and> k = guild_key g"
  using foldl_obj_set_mem [of k g "[]" grs] by (simp add: uniqueGuilds_def)

lemma guildsToUpsert_subset: "set (guildsToUpsert grs) \<subseteq> set grs"
  by (auto simp: guildsToUpsert_def dest: uniqueGuilds_mem)

lemma guildsToUpsert_keys:
  "map guild_key (guildsToUpsert grs) = map fst (uniqueGuilds grs)"
  by (auto simp: guildsToUpsert_def dest: uniqueGuilds_mem)

lemma guildsToUpsert_distinct: "distinct (map guild_key (guildsToUpsert grs))"
  using foldl_obj_set_distinct [of "[]" grs]
  by (simp add: guildsToUpsert_keys uniqueGuilds_def)

lemma guildsToUpsert_key_set:
  "guild_key ` set (guildsToUpsert grs) = guild_key ` set grs"
proof -
  have "guild_key ` set (guildsToUpsert grs) = set (map guild_key (guildsToUpsert grs))"
    by simp
  also have "\<dots> = set (map fst (uniqueGuilds grs))"
    by (rule arg_cong [OF guildsToUpsert_keys])
  also have "\<dots> = guild_key ` set grs"
    using foldl_obj_set_keys [of "[]" grs] by (simp add: uniqueGuilds_def)
  finally show ?thesis .
qed

subsection \<open>The linking loop\<close>

text \<open>
  A row is linked only when no guild row matches the account summary; a match ends the
  loop with the \<^verbatim>\<open>TypeError\<close>. The id map plays no part in the result.
\<close>

lemma link_row_cases:
  "link_row m ac gr c =
     (if characterGuild ac gr c = None then Some (c\<lparr> c_guild_id := None \<rparr>) else None)"
  by (auto simp: link_row_def guild_prop_def split: option.splits)

lemma link_loop_eq:
  "link_loop m ac gr cs =
     (if \<forall>c \<in> set cs. characterGuild ac gr c = None
      then Some (map (\<lambda>c. c\<lparr> c_guild_id := None \<rparr>) cs) else None)"
  by (induction cs) (simp_all add: link_row_cases)

lemma characterGuild_no_summary_guild:
  "\<forall>a \<in> set ac. rc_guild a = None \<Longrightarrow> characterGuild ac gr c = None"
  by (simp add: characterGuild_def find_None_iff)

lemma link_and_store_eq:
  "link_and_store e u ac crs grs m =
     (if \<exists>c \<in> set crs. characterGuild ac grs c \<noteq> None then (SyncFailed, [])
      else if sb_error (characters_upsert e (map (\<lambda>c. c\<lparr> c_guild_id := None \<rparr>) crs)) \<noteq> None
      then (SyncFailed, [UpsertCharacters (map (\<lambda>c. c\<lparr> c_guild_id := None \<rparr>) crs)])
      else (SyncCompleted (u_battletag u) (length crs),
            UpsertCharacters (map (\<lambda>c. c\<lparr> c_guild_id := None \<rparr>) crs) # cleanup e u ac))"
  by (simp add: link_and_store_def link_loop_eq)

subsection \<open>The phases as equations\<close>

lemma store_phase_eq:
  "store_phase e u ac crs grs =
     (if grs \<noteq> [] \<and> sb_error (guilds_upsert e (guildsToUpsert grs)) \<noteq> None
      then (SyncFailed, [UpsertGuilds (guildsToUpsert grs)])
      else
        (fst (link_and_store e u ac crs grs Map.empty),
         (if grs \<noteq> [] then [UpsertGuilds (guildsToUpsert grs)] else []) @
         snd (link_and_store e u ac crs grs Map.empty)))"
  by (simp add: store_phase_def Let_def link_and_store_eq split: prod.split)

lemma sync_eq:
  "sync e u =
     (case fetch_account e (BLIZZARD_API_REGION e) (LOCALE e) (u_access_token u) of
        Rejects \<Rightarrow>
          (SyncFailed, [FetchAccount (BLIZZARD_API_REGION e) (LOCALE e) (u_access_token u)])
      | Responds st p \<Rightarrow>
          if \<not> ok st then
            (if st = 401 then TokenInvalid else AccountFetchFailed,
             [FetchAccount (BLIZZARD_API_REGION e) (LOCALE e) (u_access_token u)])
          else if \<exists>ch \<in> set (allCharacters_of p). charProfileRes e ch = Rejects then
            (SyncFailed,
             FetchAccount (BLIZZARD_API_REGION e) (LOCALE e) (u_access_token u) #
             fst (detail_loop e u (allCharacters_of p)))
          else
            (fst (store_phase e u (allCharacters_of p) (map (charRow e u) (allCharacters_of p))
                    (concat (map (\<lambda>ch. pushedGuilds e (charProfileRes e ch)) (allCharacters_of p)))),
             FetchAccount (BLIZZARD_API_REGION e) (LOCALE e) (u_access_token u) #
             fst (detail_loop e u (allCharacters_of p)) @
             snd (store_phase e u (allCharacters_of p) (map (charRow e u) (allCharacters_of p))
                    (concat (map (\<lambda>ch. pushedGuilds e (charProfileRes e ch)) (allCharacters_of p))))))"
proof (cases "fetch_account e (BLIZZARD_API_REGION e) (LOCALE e) (u_access_token u)")
  case Rejects
  then show ?thesis by (simp add: sync_def)
next
  case (Responds st p)
  obtain evs r where dl: "detail_loop e u (allCharacters_of p) = (evs, r)"
    by (cases "detail_loop e u (allCharacters_of p)")
  have r: "r = snd (detail_loop e u (allCharacters_of p))" and evs: "evs = fst (detail_loop e u (allCharacters_of p))"
    using dl by simp_all
  show ?thesis
  proof (cases "\<exists>ch \<in> set (allCharacters_of p). charProfileRes e ch = Rejects")
    case True
    then have "r = None" unfolding r detail_loop_snd by auto
    with Responds dl True show ?thesis by (simp add: sync_def Let_def)
  next
    case False
    then have "r = Some (map (charRow e u) (allCharacters_of p),
        concat (map (\<lambda>ch. pushedGuilds e (charProfileRes e ch)) (allCharacters_of p)))"
      unfolding r detail_loop_snd by auto
    with Responds dl False show ?thesis
      by (simp add: sync_def Let_def split: prod.split)
  qed
qed

lemma handler_eq:
  "handler e req =
     (if falsy (user_id_param req) \<and> falsy (battlenet_id_param req) then (MissingIdentifier, [])
      else if sb_error (users_select e (userFilter req)) \<noteq> None then
        (UserNotFound, [SelectUser (userFilter req)])
      else
        (case sb_data (users_select e (userFilter req)) of
           None \<Rightarrow> (UserNotFound, [SelectUser (userFilter req)])
         | Some u \<Rightarrow> (fst (sync e u), SelectUser (userFilter req) # snd (sync e u))))"
  by (simp add: handler_def Let_def split: option.split prod.split)

subsection \<open>Keys and triples\<close>

text \<open>
  The joined key determines name, realm slug and region as long as neither the names nor
  the realm slugs contain the separator.
\<close>

lemma append_separator_inject:
  "c \<notin> set a \<Longrightarrow> c \<notin> set a' \<Longrightarrow> a @ c # b = a' @ c # b' \<Longrightarrow> a = a' \<and> b = b'"
proof (induction a arbitrary: a')
  case Nil
  then show ?case by (cases a') auto
next
  case (Cons x a)
  then show ?case by (cases a') auto
qed

lemma composite_key_inject:
  assumes "CHR ''|'' \<notin> set n" and "CHR ''|'' \<notin> set n'"
    and "CHR ''|'' \<notin> set r" and "CHR ''|'' \<notin> set r'"
  shows "(composite_key n r g = composite_key n' r' g') = (n = n' \<and> r = r' \<and> g = g')"
proof
  assume "composite_key n r g = composite_key n' r' g'"
  then have "n @ CHR ''|'' # (r @ CHR ''|'' # g) = n' @ CHR ''|'' # (r' @ CHR ''|'' # g')"
    by (simp add: composite_key_def)
  from append_separator_inject [OF assms(1,2) this]
  have n: "n = n'" and "r @ CHR ''|'' # g = r' @ CHR ''|'' # g'"
    by simp_all
  from append_separator_inject [OF assms(3,4) this(2)] n
  show "n = n' \<and> r = r' \<and> g = g'" by simp
next
  assume "n = n' \<and> r = r' \<and> g = g'"
  then show "composite_key n r g = composite_key n' r' g'" by simp
qed

text \<open>
  For names and realm slugs without the separator, a joined key is a roster key exactly
  when its triple is the triple of a roster character under the configured region.
\<close>

lemma roster_key_is_triple:
  assumes "CHR ''|'' \<notin> set n" and "CHR ''|'' \<notin> set r"
    and "\<forall>c \<in> set roster. CHR ''|'' \<notin> set (rc_name c) \<and> CHR ''|'' \<notin> set (rc_realm_slug c)"
  shows "(composite_key n r g \<in> set (currentCharKeys e roster)) =
         ((n, r, g) \<in> (\<lambda>c. (rc_name c, rc_realm_slug c, BLIZZARD_API_REGION e)) ` set roster)"
proof -
  have "(composite_key n r g =
           composite_key (rc_name c) (rc_realm_slug c) (BLIZZARD_API_REGION e)) =
        ((n, r, g) = (rc_name c, rc_realm_slug c, BLIZZARD_API_REGION e))"
    if "c \<in> set roster" for c
  proof -
    from assms(3) that have "CHR ''|'' \<notin> set (rc_name c)" "CHR ''|'' \<notin> set (rc_realm_slug c)"
      by blast+
    from composite_key_inject [OF assms(1) this(1) assms(2) this(2)] show ?thesis
      by simp
  qed
  then show ?thesis
    unfolding currentCharKeys_def set_map image_iff by blast
qed

subsection \<open>First seen wins\<close>

text \<open>
  Where different guild rows have different keys, the batch is the list of guild rows
  with every repetition after the first removed.
\<close>

lemma obj_set_fresh:
  "k \<notin> fst ` set kvs \<Longrightarrow> obj_set k v kvs = kvs @ [(k, v)]"
proof (induction kvs)
  case Nil
  show ?case by simp
next
  case (Cons p kvs)
  obtain k' v' where p: "p = (k', v')" by (cases p)
  from Cons.prems p have "k' \<noteq> k" and "k \<notin> fst ` set kvs" by auto
  with Cons.IH p show ?case by simp
qed

lemma obj_set_same:
  "map_of kvs k = Some v \<Longrightarrow> obj_set k v kvs = kvs"
proof (induction kvs)
  case Nil
  then show ?case by simp
next
  case (Cons p kvs)
  obtain k' v' where p: "p = (k', v')" by (cases p)
  from Cons p show ?case by (cases "k' = k") simp_all
qed

lemma map_of_keyed:
  "inj_on f (set xs) \<Longrightarrow> x \<in> set xs \<Longrightarrow> map_of (map (\<lambda>g. (f g, g)) xs) (f x) = Some x"
proof (induction xs)
  case Nil
  then show ?case by simp
next
  case (Cons y ys)
  show ?case
  proof (cases "x = y")
    case True
    then show ?thesis by simp
  next
    case False
    with Cons.prems have "f x \<noteq> f y" and "x \<in> set ys" and "inj_on f (set ys)"
      by (auto simp: inj_on_def)
    with Cons.IH show ?thesis by simp
  qed
qed

lemma uniqueGuilds_snoc:
  "uniqueGuilds (grs @ [g]) = obj_set (guild_key g) g (uniqueGuilds grs)"
  by (simp only: uniqueGuilds_def foldl_append foldl.simps)

lemma uniqueGuilds_first_seen:
  "inj_on guild_key (set grs) \<Longrightarrow>
     uniqueGuilds grs = map (\<lambda>g. (guild_key g, g)) (rev (remdups (rev grs)))"
proof (induction grs rule: rev_induct)
  case Nil
  show ?case by (simp add: uniqueGuilds_def)
next
  case (snoc x xs)
  let ?F = "rev (remdups (rev xs))"
  from snoc.prems have inj: "inj_on guild_key (set xs)"
    by (simp add: inj_on_def)
  note IH = snoc.IH [OF inj]
  have F: "set ?F = set xs"
    by simp
  show ?case
  proof (cases "x \<in> set xs")
    case True
    from inj True F have "map_of (map (\<lambda>g. (guild_key g, g)) ?F) (guild_key x) = Some x"
      by (intro map_of_keyed) simp_all
    then have "obj_set (guild_key x) x (map (\<lambda>g. (guild_key g, g)) ?F) =
        map (\<lambda>g. (guild_key g, g)) ?F"
      by (rule obj_set_same)
    with True show ?thesis
      by (simp add: uniqueGuilds_snoc IH)
  next
    case False
    with snoc.prems have "guild_key x \<notin> fst ` set (map (\<lambda>g. (guild_key g, g)) ?F)"
      by (auto simp: inj_on_def)
    from obj_set_fresh [OF this] False show ?thesis
      by (simp add: uniqueGuilds_snoc IH)
  qed
qed

lemma guildsToUpsert_first_seen:
  "inj_on guild_key (set grs) \<Longrightarrow> guildsToUpsert grs = rev (remdups (rev grs))"
  by (simp add: guildsToUpsert_def uniqueGuilds_first_seen comp_def)

lemma guild_key_inj_on:
  assumes "\<forall>g \<in> set grs. CHR ''|'' \<notin> set (g_name g) \<and> CHR ''|'' \<notin> set (g_realm_slug g)"
  shows "inj_on guild_key (set grs)"
proof (rule inj_onI)
  fix g h :: guild_row
  assume g: "g \<in> set grs" and h: "h \<in> set grs" and eq: "guild_key g = guild_key h"
  from assms g have pg: "CHR ''|'' \<notin> set (g_name g)" "CHR ''|'' \<notin> set (g_realm_slug g)"
    by blast+
  from assms h have ph: "CHR ''|'' \<notin> set (g_name h)" "CHR ''|'' \<notin> set (g_realm_slug h)"
    by blast+
  from eq have "composite_key (g_name g) (g_realm_slug g) (g_region g) =
      composite_key (g_name h) (g_realm_slug h) (g_region h)"
    by (simp only: guild_key_def)
  with composite_key_inject [OF pg(1) ph(1) pg(2) ph(2)]
  have "g_name g = g_name h \<and> g_realm_slug g = g_realm_slug h \<and> g_region g = g_region h"
    by blast
  then show "g = h" by simp
qed

subsection \<open>Unfolding sets for evaluation\<close>

lemmas run_defs = handler_def sync_def store_phase_def link_and_store_def cleanup_def
  currentCharKeys_def link_row_def characterGuild_def guild_prop_def guildIdMap_of_def
  guildsToUpsert_def uniqueGuilds_def guild_key_def charProfileRes_def pushedGuilds_def
  charRow_def allCharacters_of_def composite_key_def ascii_toLowerCase_def ascii_toLowerCase_char_def
  falsy_def userFilter_def BLIZZARD_API_REGION_def LOCALE_def or_default_def ok_def

section \<open>Claims\<close>

subsection \<open>Early exits\<close>

text \<open>
  C9. A request that carries neither \<^verbatim>\<open>user_id\<close> nor \<^verbatim>\<open>battlenet_id\<close> is answered with
  400 before the record store or the remote service is contacted: the handler issues no
  call at all.
\<close>

theorem missing_identifier_rejected:
  assumes "user_id_param req = None" and "battlenet_id_param req = None"
  shows "handler e req = (MissingIdentifier, []) \<and> status (fst (handler e req)) = 400"
  using assms by (simp add: handler_def falsy_def)

theorem missing_identifier_rejected_witness:
  "user_id_param req_none = None \<and> battlenet_id_param req_none = None \<and>
   handler env_thrall req_none = (MissingIdentifier, []) \<and>
   status (fst (handler env_thrall req_none)) = 400"
proof -
  have h1: "user_id_param req_none = None" and h2: "battlenet_id_param req_none = None"
    by (simp_all add: req_none_def)
  from missing_identifier_rejected [OF h1 h2, of env_thrall] h1 h2 show ?thesis by simp
qed

text \<open>
  C5. When the account profile request made for the user is answered with 401, the run
  answers 401 at once; the only calls issued are the user lookup and that request, so no
  guild upsert, character upsert or delete has reached the store.
\<close>

theorem unauthorized_leaves_store_untouched:
  assumes "\<not> (falsy (user_id_param req) \<and> falsy (battlenet_id_param req))"
    and "sb_error (users_select e (userFilter req)) = None"
    and "sb_data (users_select e (userFilter req)) = Some u"
    and "fetch_account e (BLIZZARD_API_REGION e) (LOCALE e) (u_access_token u) = Responds 401 body"
  shows "handler e req =
           (TokenInvalid,
            [SelectUser (userFilter req),
             FetchAccount (BLIZZARD_API_REGION e) (LOCALE e) (u_access_token u)]) \<and>
         status (fst (handler e req)) = 401 \<and>
         (\<forall>ev \<in> set (snd (handler e req)). \<not> is_write ev)"
  using assms by (simp add: handler_eq sync_eq ok_def)

theorem unauthorized_leaves_store_untouched_witness:
  "\<not> (falsy (user_id_param req1) \<and> falsy (battlenet_id_param req1)) \<and>
   sb_error (users_select env_unauthorized (userFilter req1)) = None \<and>
   sb_data (users_select env_unauthorized (userFilter req1)) = Some user1 \<and>
   fetch_account env_unauthorized (BLIZZARD_API_REGION env_unauthorized)
     (LOCALE env_unauthorized) (u_access_token user1) = Responds 401 \<lparr> wow_accounts = None \<rparr> \<and>
   handler env_unauthorized req1 =
     (TokenInvalid, [SelectUser (ById ''u1''), FetchAccount ''us'' ''en_US'' ''tok'']) \<and>
   status (fst (handler env_unauthorized req1)) = 401 \<and>
   filter is_write (snd (handler env_unauthorized req1)) = []"
proof -
  have h1: "\<not> (falsy (user_id_param req1) \<and> falsy (battlenet_id_param req1))"
    by (simp add: falsy_def req1_def)
  have h2: "sb_error (users_select env_unauthorized (userFilter req1)) = None"
    by (simp add: env_unauthorized_def env_thrall_def example_env_def user1_def req1_def)
  have h3: "sb_data (users_select env_unauthorized (userFilter req1)) = Some user1"
    by (simp add: env_unauthorized_def env_thrall_def example_env_def user1_def req1_def)
  have h4: "fetch_account env_unauthorized (BLIZZARD_API_REGION env_unauthorized)
     (LOCALE env_unauthorized) (u_access_token user1) = Responds 401 \<lparr> wow_accounts = None \<rparr>"
    by (simp add: env_unauthorized_def env_thrall_def example_env_def user1_def req1_def)
  have v: "userFilter req1 = ById ''u1''" "BLIZZARD_API_REGION env_unauthorized = ''us''"
    "LOCALE env_unauthorized = ''en_US''" "u_access_token user1 = ''tok''"
    by (simp_all add: env_unauthorized_def env_thrall_def example_env_def user1_def req1_def userFilter_def falsy_def BLIZZARD_API_REGION_def LOCALE_def or_default_def)
  from unauthorized_leaves_store_untouched [OF h1 h2 h3 h4] h1 h2 h3 h4 v show ?thesis
    by simp
qed

subsection \<open>A failed guild upsert\<close>

lemma detail_loop_no_write: "filter is_write (fst (detail_loop e u chs)) = []"
  using detail_loop_fst [of e u chs] by (auto simp: filter_empty_conv)

lemma detail_loop_no_guild_upsert: "UpsertGuilds rows \<notin> set (fst (detail_loop e u chs))"
  using detail_loop_fst [of e u chs] by auto

lemma cleanup_no_guild_upsert: "UpsertGuilds rows \<notin> set (cleanup e u ac)"
  by (auto simp: cleanup_def split: option.split)

lemma link_and_store_no_guild_upsert:
  "UpsertGuilds rows \<notin> set (snd (link_and_store e u ac crs grs m))"
  by (simp add: link_and_store_eq cleanup_no_guild_upsert)

lemma store_phase_guild_failure:
  assumes "UpsertGuilds rows \<in> set (snd (store_phase e u ac crs grs))"
    and "sb_error (guilds_upsert e rows) \<noteq> None"
  shows "store_phase e u ac crs grs = (SyncFailed, [UpsertGuilds rows])"
proof (cases "grs \<noteq> [] \<and> sb_error (guilds_upsert e (guildsToUpsert grs)) \<noteq> None")
  case True
  with assms(1) show ?thesis by (simp add: store_phase_eq)
next
  case False
  with assms(1) have "grs \<noteq> [] \<and> rows = guildsToUpsert grs"
    by (cases "grs = []") (simp_all add: store_phase_eq link_and_store_no_guild_upsert)
  with False assms(2) show ?thesis by simp
qed

lemma sync_guild_failure:
  assumes "UpsertGuilds rows \<in> set (snd (sync e u))"
    and "sb_error (guilds_upsert e rows) \<noteq> None"
  shows "fst (sync e u) = SyncFailed \<and> filter is_write (snd (sync e u)) = [UpsertGuilds rows]"
proof (cases "fetch_account e (BLIZZARD_API_REGION e) (LOCALE e) (u_access_token u)")
  case Rejects
  with assms(1) show ?thesis by (simp add: sync_eq)
next
  case (Responds st p)
  let ?ac = "allCharacters_of p"
  let ?sp = "store_phase e u ?ac (map (charRow e u) ?ac)
               (concat (map (\<lambda>ch. pushedGuilds e (charProfileRes e ch)) ?ac))"
  from assms(1) Responds have ok: "ok st"
    by (cases "ok st") (simp_all add: sync_eq)
  from assms(1) Responds ok have nr: "\<not> (\<exists>ch \<in> set ?ac. charProfileRes e ch = Rejects)"
    by (cases "\<exists>ch \<in> set ?ac. charProfileRes e ch = Rejects")
       (simp_all add: sync_eq detail_loop_no_guild_upsert)
  from Responds ok nr have eq: "sync e u =
      (fst ?sp, FetchAccount (BLIZZARD_API_REGION e) (LOCALE e) (u_access_token u) #
                fst (detail_loop e u ?ac) @ snd ?sp)"
    by (simp add: sync_eq)
  with assms(1) have "UpsertGuilds rows \<in> set (snd ?sp)"
    by (simp add: detail_loop_no_guild_upsert)
  then have "?sp = (SyncFailed, [UpsertGuilds rows])"
    using assms(2) by (rule store_phase_guild_failure)
  with eq show ?thesis by (simp add: detail_loop_no_write)
qed

text \<open>
  C2. In every run in which the batched guild upsert is issued and the store answers it
  with an error, the run ends in the \<^verbatim>\<open>catch\<close> block with the 500 response (the
  persistence failure), the failed guild upsert is the only write the run issued, and in
  particular no character upsert is issued.
\<close>

theorem guild_upsert_failure_aborts:
  assumes "UpsertGuilds rows \<in> set (snd (handler e req))"
    and "sb_error (guilds_upsert e rows) \<noteq> None"
  shows "fst (handler e req) = SyncFailed \<and> status (fst (handler e req)) = 500 \<and>
         filter is_write (snd (handler e req)) = [UpsertGuilds rows] \<and>
         (\<forall>batch. UpsertCharacters batch \<notin> set (snd (handler e req)))"
proof -
  from assms(1) obtain u where
    h: "handler e req = (fst (sync e u), SelectUser (userFilter req) # snd (sync e u))"
    by (cases "sb_data (users_select e (userFilter req))")
       (auto simp: handler_eq split: if_split_asm)
  with assms(1) have "UpsertGuilds rows \<in> set (snd (sync e u))" by simp
  from sync_guild_failure [OF this assms(2)] h
  have r: "fst (handler e req) = SyncFailed"
    and w: "filter is_write (snd (handler e req)) = [UpsertGuilds rows]"
    by simp_all
  have "UpsertCharacters batch \<notin> set (snd (handler e req))" for batch
  proof
    assume "UpsertCharacters batch \<in> set (snd (handler e req))"
    then have "UpsertCharacters batch \<in> set (filter is_write (snd (handler e req)))"
      by simp
    with w show False by simp
  qed
  with r w show ?thesis by simp
qed

theorem guild_upsert_failure_aborts_witness:
  "UpsertGuilds [\<lparr> g_name = ''Horde Vanguard'', g_realm_slug = ''icecrown'', g_region = ''us'' \<rparr>]
     \<in> set (snd (handler env_guild_failure req1)) \<and>
   sb_error (guilds_upsert env_guild_failure
     [\<lparr> g_name = ''Horde Vanguard'', g_realm_slug = ''icecrown'', g_region = ''us'' \<rparr>]) \<noteq> None \<and>
   fst (handler env_guild_failure req1) = SyncFailed \<and>
   status (fst (handler env_guild_failure req1)) = 500 \<and>
   filter is_write (snd (handler env_guild_failure req1)) =
     [UpsertGuilds [\<lparr> g_name = ''Horde Vanguard'', g_realm_slug = ''icecrown'', g_region = ''us'' \<rparr>]] \<and>
   UpsertCharacters [(charRow env_guild_failure user1 thrall)\<lparr> c_guild_id := None \<rparr>]
     \<notin> set (snd (handler env_guild_failure req1))"
proof -
  let ?rows = "[\<lparr> g_name = ''Horde Vanguard'', g_realm_slug = ''icecrown'', g_region = ''us'' \<rparr>]"
  have h1: "UpsertGuilds ?rows \<in> set (snd (handler env_guild_failure req1))"
    by (simp add: run_defs env_guild_failure_def env_thrall_def example_env_def user1_def req1_def thrall_def horde_vanguard_def)
  have h2: "sb_error (guilds_upsert env_guild_failure ?rows) \<noteq> None"
    by (simp add: env_guild_failure_def env_thrall_def example_env_def user1_def req1_def thrall_def horde_vanguard_def)
  from guild_upsert_failure_aborts [OF h1 h2] h1 h2 show ?thesis by simp
qed

subsection \<open>The rows of the upserts\<close>

lemma cleanup_set:
  "set (cleanup e u ac) =
     insert (SelectCharacters (u_id u))
       ((\<lambda>ch. DeleteCharacter (u_id u) (ec_name ch) (ec_realm_slug ch) (ec_region ch)) `
          {ch \<in> set (case sb_data (characters_select e (u_id u)) of None \<Rightarrow> [] | Some ex \<Rightarrow> ex).
             composite_key (ec_name ch) (ec_realm_slug ch) (ec_region ch)
               \<notin> set (currentCharKeys e ac)})"
  by (cases "sb_data (characters_select e (u_id u))") (simp_all add: cleanup_def)

lemma store_phase_guild_rows:
  assumes "UpsertGuilds rows \<in> set (snd (store_phase e u ac crs grs))"
  shows "rows = guildsToUpsert grs"
proof (cases "grs = []")
  case True
  with assms show ?thesis
    by (simp add: store_phase_eq link_and_store_no_guild_upsert)
next
  case False
  with assms show ?thesis
    by (cases "sb_error (guilds_upsert e (guildsToUpsert grs)) \<noteq> None")
       (simp_all add: store_phase_eq link_and_store_no_guild_upsert)
qed

lemma link_and_store_char_rows:
  assumes "UpsertCharacters rows \<in> set (snd (link_and_store e u ac crs grs m))"
  shows "rows = map (\<lambda>c. c\<lparr> c_guild_id := None \<rparr>) crs"
proof -
  have "UpsertCharacters rows \<notin> set (cleanup e u ac)"
    by (auto simp: cleanup_set)
  with assms show ?thesis
    by (cases "\<exists>c \<in> set crs. characterGuild ac grs c \<noteq> None";
        cases "sb_error (characters_upsert e (map (\<lambda>c. c\<lparr> c_guild_id := None \<rparr>) crs)) \<noteq> None")
       (simp_all add: link_and_store_eq)
qed

lemma store_phase_char_rows:
  assumes "UpsertCharacters rows \<in> set (snd (store_phase e u ac crs grs))"
  shows "rows = map (\<lambda>c. c\<lparr> c_guild_id := None \<rparr>) crs"
proof -
  from assms have "UpsertCharacters rows \<in> set (snd (link_and_store e u ac crs grs Map.empty))"
    by (cases "grs \<noteq> [] \<and> sb_error (guilds_upsert e (guildsToUpsert grs)) \<noteq> None";
        cases "grs = []")
       (simp_all add: store_phase_eq)
  then show ?thesis by (rule link_and_store_char_rows)
qed

text \<open>
  Every run that passes the character profile loop has the account profile \<open>p\<close> behind it;
  its trace is the account request, the profile requests and the calls of the store phase.
\<close>

lemma sync_store_phase:
  assumes "ev \<in> set (snd (sync e u))" and "is_write ev"
  shows "\<exists>st p. fetch_account e (BLIZZARD_API_REGION e) (LOCALE e) (u_access_token u) = Responds st p \<and>
           ok st \<and>
           ev \<in> set (snd (store_phase e u (allCharacters_of p)
                        (map (charRow e u) (allCharacters_of p))
                        (concat (map (\<lambda>ch. pushedGuilds e (charProfileRes e ch))
                                   (allCharacters_of p)))))"
proof (cases "fetch_account e (BLIZZARD_API_REGION e) (LOCALE e) (u_access_token u)")
  case Rejects
  with assms show ?thesis by (auto simp: sync_eq)
next
  case (Responds st p)
  let ?ac = "allCharacters_of p"
  have dl: "ev \<notin> set (fst (detail_loop e u ?ac))"
    using detail_loop_fst [of e u ?ac] assms(2) by auto
  from assms Responds have ok: "ok st"
    by (cases "ok st") (auto simp: sync_eq)
  from assms Responds ok dl have "\<not> (\<exists>ch \<in> set ?ac. charProfileRes e ch = Rejects)"
    by (cases "\<exists>ch \<in> set ?ac. charProfileRes e ch = Rejects") (auto simp: sync_eq)
  with assms Responds ok dl show ?thesis by (auto simp: sync_eq)
qed

lemma handler_sync:
  assumes "ev \<in> set (snd (handler e req))" and "is_write ev"
  shows "\<exists>u. sb_data (users_select e (userFilter req)) = Some u \<and> ev \<in> set (snd (sync e u))"
proof (cases "sb_data (users_select e (userFilter req))")
  case None
  with assms show ?thesis
    by (cases "falsy (user_id_param req) \<and> falsy (battlenet_id_param req)";
        cases "sb_error (users_select e (userFilter req)) \<noteq> None")
       (auto simp: handler_eq)
next
  case (Some u)
  with assms show ?thesis
    by (cases "falsy (user_id_param req) \<and> falsy (battlenet_id_param req)";
        cases "sb_error (users_select e (userFilter req)) \<noteq> None")
       (auto simp: handler_eq)
qed

lemma handler_guild_rows:
  assumes "UpsertGuilds rows \<in> set (snd (handler e req))"
  shows "\<exists>p. rows = guildsToUpsert
           (concat (map (\<lambda>ch. pushedGuilds e (charProfileRes e ch)) (allCharacters_of p)))"
proof -
  from handler_sync [OF assms] obtain u where "UpsertGuilds rows \<in> set (snd (sync e u))"
    by auto
  from sync_store_phase [OF this] show ?thesis
    by (auto dest: store_phase_guild_rows)
qed

lemma handler_char_rows:
  assumes "UpsertCharacters rows \<in> set (snd (handler e req))"
  shows "\<exists>u st p. sb_data (users_select e (userFilter req)) = Some u \<and>
           fetch_account e (BLIZZARD_API_REGION e) (LOCALE e) (u_access_token u) = Responds st p \<and>
           rows = map (\<lambda>ch. (charRow e u ch)\<lparr> c_guild_id := None \<rparr>) (allCharacters_of p)"
proof -
  from handler_sync [OF assms] obtain u where
    u: "sb_data (users_select e (userFilter req)) = Some u"
    and "UpsertCharacters rows \<in> set (snd (sync e u))"
    by auto
  from sync_store_phase [OF this(2)] obtain st p where
    p: "fetch_account e (BLIZZARD_API_REGION e) (LOCALE e) (u_access_token u) = Responds st p"
    and "UpsertCharacters rows \<in> set (snd (store_phase e u (allCharacters_of p)
                        (map (charRow e u) (allCharacters_of p))
                        (concat (map (\<lambda>ch. pushedGuilds e (charProfileRes e ch))
                                   (allCharacters_of p)))))"
    by auto
  from store_phase_char_rows [OF this(2)] u p show ?thesis by (simp add: comp_def)
qed

subsection \<open>Completed runs\<close>

text \<open>The calls of a run that answers 200, in order.\<close>

lemma store_phase_completed:
  assumes "fst (store_phase e u ac crs grs) = SyncCompleted tag n"
  shows "tag = u_battletag u \<and> n = length crs \<and>
         snd (store_phase e u ac crs grs) =
           (if grs = [] then [] else [UpsertGuilds (guildsToUpsert grs)]) @
           UpsertCharacters (map (\<lambda>c. c\<lparr> c_guild_id := None \<rparr>) crs) # cleanup e u ac"
proof -
  from assms
  have gf: "\<not> (grs \<noteq> [] \<and> sb_error (guilds_upsert e (guildsToUpsert grs)) \<noteq> None)"
    by (cases "grs \<noteq> [] \<and> sb_error (guilds_upsert e (guildsToUpsert grs)) \<noteq> None")
       (auto simp: store_phase_eq)
  with assms have las: "fst (link_and_store e u ac crs grs Map.empty) = SyncCompleted tag n"
    by (cases "grs = []") (auto simp: store_phase_eq)
  then have nl: "\<not> (\<exists>c \<in> set crs. characterGuild ac grs c \<noteq> None)"
    by (cases "\<exists>c \<in> set crs. characterGuild ac grs c \<noteq> None")
       (simp_all add: link_and_store_eq)
  with las have ce:
    "\<not> sb_error (characters_upsert e (map (\<lambda>c. c\<lparr> c_guild_id := None \<rparr>) crs)) \<noteq> None"
    by (cases "sb_error (characters_upsert e (map (\<lambda>c. c\<lparr> c_guild_id := None \<rparr>) crs)) \<noteq> None")
       (simp_all add: link_and_store_eq)
  from nl ce have las_eq: "link_and_store e u ac crs grs Map.empty =
      (SyncCompleted (u_battletag u) (length crs),
       UpsertCharacters (map (\<lambda>c. c\<lparr> c_guild_id := None \<rparr>) crs) # cleanup e u ac)"
    by (simp add: link_and_store_eq)
  with las have tn: "tag = u_battletag u" "n = length crs" by simp_all
  from gf las_eq have "snd (store_phase e u ac crs grs) =
      (if grs = [] then [] else [UpsertGuilds (guildsToUpsert grs)]) @
      UpsertCharacters (map (\<lambda>c. c\<lparr> c_guild_id := None \<rparr>) crs) # cleanup e u ac"
    by (cases "grs = []") (auto simp: store_phase_eq)
  with tn show ?thesis by simp
qed

lemma sync_completed:
  assumes "fst (sync e u) = SyncCompleted tag n"
    and "fetch_account e (BLIZZARD_API_REGION e) (LOCALE e) (u_access_token u) = Responds st p"
  shows "tag = u_battletag u \<and> n = length (allCharacters_of p) \<and>
         snd (sync e u) =
           FetchAccount (BLIZZARD_API_REGION e) (LOCALE e) (u_access_token u) #
           fst (detail_loop e u (allCharacters_of p)) @
           (if concat (map (\<lambda>ch. pushedGuilds e (charProfileRes e ch)) (allCharacters_of p)) = []
            then []
            else [UpsertGuilds (guildsToUpsert
                   (concat (map (\<lambda>ch. pushedGuilds e (charProfileRes e ch)) (allCharacters_of p))))]) @
           UpsertCharacters (map (\<lambda>ch. (charRow e u ch)\<lparr> c_guild_id := None \<rparr>) (allCharacters_of p)) #
           cleanup e u (allCharacters_of p)"
proof -
  let ?ac = "allCharacters_of p"
  let ?crs = "map (charRow e u) ?ac"
  let ?grs = "concat (map (\<lambda>ch. pushedGuilds e (charProfileRes e ch)) ?ac)"
  from assms have ok: "ok st"
    by (cases "ok st"; cases "st = 401") (auto simp: sync_eq)
  from assms ok have nr: "\<not> (\<exists>ch \<in> set ?ac. charProfileRes e ch = Rejects)"
    by (cases "\<exists>ch \<in> set ?ac. charProfileRes e ch = Rejects") (auto simp: sync_eq)
  from assms(2) ok nr have eq: "sync e u =
      (fst (store_phase e u ?ac ?crs ?grs),
       FetchAccount (BLIZZARD_API_REGION e) (LOCALE e) (u_access_token u) #
       fst (detail_loop e u ?ac) @ snd (store_phase e u ?ac ?crs ?grs))"
    by (simp add: sync_eq)
  with assms(1) have "fst (store_phase e u ?ac ?crs ?grs) = SyncCompleted tag n"
    by simp
  from store_phase_completed [OF this] eq show ?thesis
    by (simp add: comp_def)
qed

lemma handler_completed:
  assumes "fst (handler e req) = SyncCompleted tag n"
    and "sb_data (users_select e (userFilter req)) = Some u"
  shows "fst (sync e u) = SyncCompleted tag n \<and>
         snd (handler e req) = SelectUser (userFilter req) # snd (sync e u)"
  using assms
  by (cases "falsy (user_id_param req) \<and> falsy (battlenet_id_param req)";
      cases "sb_error (users_select e (userFilter req)) \<noteq> None")
     (simp_all add: handler_eq)

lemma completed_deletes:
  assumes "fst (handler e req) = SyncCompleted tag n"
    and "sb_data (users_select e (userFilter req)) = Some u"
    and "fetch_account e (BLIZZARD_API_REGION e) (LOCALE e) (u_access_token u) = Responds st p"
  shows "(DeleteCharacter uid nm rs rg \<in> set (snd (handler e req))) =
         (DeleteCharacter uid nm rs rg \<in> set (cleanup e u (allCharacters_of p)))"
proof -
  have dl: "DeleteCharacter uid nm rs rg \<notin> set (fst (detail_loop e u (allCharacters_of p)))"
    using detail_loop_fst [of e u "allCharacters_of p"] by auto
  from handler_completed [OF assms(1,2)] sync_completed [OF _ assms(3), of tag n] dl
  show ?thesis by auto
qed

text \<open>Deletes are issued only by runs that answer 200.\<close>

lemma store_phase_delete_completed:
  assumes "DeleteCharacter uid nm rs rg \<in> set (snd (store_phase e u ac crs grs))"
  shows "status (fst (store_phase e u ac crs grs)) = 200"
  using assms
  by (cases "grs = []";
      cases "sb_error (guilds_upsert e (guildsToUpsert grs)) \<noteq> None";
      cases "\<exists>c \<in> set crs. characterGuild ac grs c \<noteq> None";
      cases "sb_error (characters_upsert e (map (\<lambda>c. c\<lparr> c_guild_id := None \<rparr>) crs)) \<noteq> None")
     (simp_all add: store_phase_eq link_and_store_eq)

lemma sync_delete_completed:
  assumes "DeleteCharacter uid nm rs rg \<in> set (snd (sync e u))"
  shows "status (fst (sync e u)) = 200"
proof (cases "fetch_account e (BLIZZARD_API_REGION e) (LOCALE e) (u_access_token u)")
  case Rejects
  with assms show ?thesis by (simp add: sync_eq)
next
  case (Responds st p)
  let ?ac = "allCharacters_of p"
  let ?sp = "store_phase e u ?ac (map (charRow e u) ?ac)
               (concat (map (\<lambda>ch. pushedGuilds e (charProfileRes e ch)) ?ac))"
  have dl: "DeleteCharacter uid nm rs rg \<notin> set (fst (detail_loop e u ?ac))"
    using detail_loop_fst [of e u ?ac] by auto
  from assms Responds have ok: "ok st"
    by (cases "ok st") (simp_all add: sync_eq)
  from assms Responds ok dl have nr: "\<not> (\<exists>ch \<in> set ?ac. charProfileRes e ch = Rejects)"
    by (cases "\<exists>ch \<in> set ?ac. charProfileRes e ch = Rejects") (simp_all add: sync_eq)
  from Responds ok nr have eq: "sync e u =
      (fst ?sp, FetchAccount (BLIZZARD_API_REGION e) (LOCALE e) (u_access_token u) #
                fst (detail_loop e u ?ac) @ snd ?sp)"
    by (simp add: sync_eq)
  with assms dl have "DeleteCharacter uid nm rs rg \<in> set (snd ?sp)"
    by simp
  from store_phase_delete_completed [OF this] eq show ?thesis
    by simp
qed

lemma deletes_only_in_completed_runs:
  assumes "DeleteCharacter uid nm rs rg \<in> set (snd (handler e req))"
  shows "status (fst (handler e req)) = 200"
proof -
  from assms obtain u where
    h: "handler e req = (fst (sync e u), SelectUser (userFilter req) # snd (sync e u))"
    by (cases "sb_data (users_select e (userFilter req))";
        cases "falsy (user_id_param req) \<and> falsy (battlenet_id_param req)";
        cases "sb_error (users_select e (userFilter req)) \<noteq> None")
       (auto simp: handler_eq)
  with assms have "DeleteCharacter uid nm rs rg \<in> set (snd (sync e u))"
    by simp
  from sync_delete_completed [OF this] h show ?thesis
    by simp
qed

text \<open>
  C3. In every run that answers 200, with the rows the store lists as owned by the
  reconciling user at hand, and names and realm slugs that do not contain the separator
  \<^verbatim>\<open>|\<close> of the handler's joined keys: for each listed row whose natural key, the triple
  of name, realm slug and region, is not the triple of any roster character (under the
  configured region), the run issues the delete that matches exactly the owner and the
  name, realm slug and region of that row; and every delete the run issues names the
  reconciling user as owner and targets the triple of a listed row that is absent from
  the roster, so no delete can match a row of another user.
\<close>

theorem orphans_of_the_user_are_deleted:
  assumes "handler e req = (SyncCompleted tag n, tr)"
    and "sb_data (users_select e (userFilter req)) = Some u"
    and "fetch_account e (BLIZZARD_API_REGION e) (LOCALE e) (u_access_token u) = Responds st p"
    and "sb_data (characters_select e (u_id u)) = Some existingChars"
    and "\<forall>c \<in> set (allCharacters_of p).
           CHR ''|'' \<notin> set (rc_name c) \<and> CHR ''|'' \<notin> set (rc_realm_slug c)"
    and "\<forall>ch \<in> set existingChars.
           CHR ''|'' \<notin> set (ec_name ch) \<and> CHR ''|'' \<notin> set (ec_realm_slug ch)"
  shows "(\<forall>ch \<in> set existingChars.
            (ec_name ch, ec_realm_slug ch, ec_region ch)
              \<notin> (\<lambda>c. (rc_name c, rc_realm_slug c, BLIZZARD_API_REGION e)) ` set (allCharacters_of p) \<longrightarrow>
            DeleteCharacter (u_id u) (ec_name ch) (ec_realm_slug ch) (ec_region ch) \<in> set tr) \<and>
         (\<forall>uid nm rs rg. DeleteCharacter uid nm rs rg \<in> set tr \<longrightarrow>
            uid = u_id u \<and>
            (nm, rs, rg) \<in> (\<lambda>ch. (ec_name ch, ec_realm_slug ch, ec_region ch)) ` set existingChars \<and>
            (nm, rs, rg)
              \<notin> (\<lambda>c. (rc_name c, rc_realm_slug c, BLIZZARD_API_REGION e)) ` set (allCharacters_of p))"
proof -
  let ?roster = "(\<lambda>c. (rc_name c, rc_realm_slug c, BLIZZARD_API_REGION e)) ` set (allCharacters_of p)"
  from assms(1) have f: "fst (handler e req) = SyncCompleted tag n" and tr: "tr = snd (handler e req)"
    by simp_all
  note d = completed_deletes [OF f assms(2,3)]
  have key: "(composite_key (ec_name ch) (ec_realm_slug ch) (ec_region ch)
                \<in> set (currentCharKeys e (allCharacters_of p))) =
             ((ec_name ch, ec_realm_slug ch, ec_region ch) \<in> ?roster)"
    if "ch \<in> set existingChars" for ch
  proof -
    from assms(6) that have "CHR ''|'' \<notin> set (ec_name ch)" "CHR ''|'' \<notin> set (ec_realm_slug ch)"
      by blast+
    then show ?thesis
      using assms(5) by (rule roster_key_is_triple)
  qed
  have p1: "\<forall>ch \<in> set existingChars.
      (ec_name ch, ec_realm_slug ch, ec_region ch) \<notin> ?roster \<longrightarrow>
      DeleteCharacter (u_id u) (ec_name ch) (ec_realm_slug ch) (ec_region ch) \<in> set tr"
    unfolding tr d cleanup_set assms(4) using key by auto
  have p2: "\<forall>uid nm rs rg. DeleteCharacter uid nm rs rg \<in> set tr \<longrightarrow>
      uid = u_id u \<and>
      (nm, rs, rg) \<in> (\<lambda>ch. (ec_name ch, ec_realm_slug ch, ec_region ch)) ` set existingChars \<and>
      (nm, rs, rg) \<notin> ?roster"
    unfolding tr d cleanup_set assms(4) using key by auto
  from p1 p2 show ?thesis by (rule conjI)
qed

theorem orphans_of_the_user_are_deleted_witness:
  "handler env_orphan req1 =
     (SyncCompleted ''Tag#1'' 1,
      [SelectUser (ById ''u1''), FetchAccount ''us'' ''en_US'' ''tok'',
       FetchCharacter ''us'' ''icecrown'' ''thrall'',
       UpsertCharacters [(charRow env_orphan user1 thrall)\<lparr> c_guild_id := None \<rparr>],
       SelectCharacters ''u1'',
       DeleteCharacter ''u1'' ''Garrosh'' ''icecrown'' ''us'',
       DeleteCharacter ''u1'' ''Thrall'' ''area52'' ''us'']) \<and>
   sb_data (users_select env_orphan (userFilter req1)) = Some user1 \<and>
   fetch_account env_orphan (BLIZZARD_API_REGION env_orphan) (LOCALE env_orphan)
     (u_access_token user1) =
     Responds 200 \<lparr> wow_accounts = Some [\<lparr> wa_characters = Some [thrall] \<rparr>] \<rparr> \<and>
   sb_data (characters_select env_orphan (u_id user1)) =
     Some [stored_thrall, stored_garrosh, stored_thrall_area52] \<and>
   (ec_name stored_thrall_area52, ec_realm_slug stored_thrall_area52, ec_region stored_thrall_area52)
     \<notin> (\<lambda>c. (rc_name c, rc_realm_slug c, BLIZZARD_API_REGION env_orphan)) ` set [thrall] \<and>
   DeleteCharacter (u_id user1) (ec_name stored_thrall_area52) (ec_realm_slug stored_thrall_area52)
       (ec_region stored_thrall_area52)
     \<in> set [SelectUser (ById ''u1''), FetchAccount ''us'' ''en_US'' ''tok'',
       FetchCharacter ''us'' ''icecrown'' ''thrall'',
       UpsertCharacters [(charRow env_orphan user1 thrall)\<lparr> c_guild_id := None \<rparr>],
       SelectCharacters ''u1'',
       DeleteCharacter ''u1'' ''Garrosh'' ''icecrown'' ''us'',
       DeleteCharacter ''u1'' ''Thrall'' ''area52'' ''us''] \<and>
   (ec_name stored_garrosh, ec_realm_slug stored_garrosh, ec_region stored_garrosh)
     \<notin> (\<lambda>c. (rc_name c, rc_realm_slug c, BLIZZARD_API_REGION env_orphan)) ` set [thrall] \<and>
   DeleteCharacter (u_id user1) (ec_name stored_garrosh) (ec_realm_slug stored_garrosh)
       (ec_region stored_garrosh)
     \<in> set [SelectUser (ById ''u1''), FetchAccount ''us'' ''en_US'' ''tok'',
       FetchCharacter ''us'' ''icecrown'' ''thrall'',
       UpsertCharacters [(charRow env_orphan user1 thrall)\<lparr> c_guild_id := None \<rparr>],
       SelectCharacters ''u1'',
       DeleteCharacter ''u1'' ''Garrosh'' ''icecrown'' ''us'',
       DeleteCharacter ''u1'' ''Thrall'' ''area52'' ''us'']"
proof -
  let ?tr = "[SelectUser (ById ''u1''), FetchAccount ''us'' ''en_US'' ''tok'',
       FetchCharacter ''us'' ''icecrown'' ''thrall'',
       UpsertCharacters [(charRow env_orphan user1 thrall)\<lparr> c_guild_id := None \<rparr>],
       SelectCharacters ''u1'',
       DeleteCharacter ''u1'' ''Garrosh'' ''icecrown'' ''us'',
       DeleteCharacter ''u1'' ''Thrall'' ''area52'' ''us'']"
  let ?p = "\<lparr> wow_accounts = Some [\<lparr> wa_characters = Some [thrall] \<rparr>] \<rparr>"
  let ?existing = "[stored_thrall, stored_garrosh, stored_thrall_area52]"
  note defs = env_orphan_def example_env_def user1_def req1_def thrall_def stored_thrall_def
    stored_garrosh_def stored_thrall_area52_def
  have h1: "handler env_orphan req1 = (SyncCompleted ''Tag#1'' 1, ?tr)"
    by (simp add: run_defs defs)
  have h2: "sb_data (users_select env_orphan (userFilter req1)) = Some user1"
    by (simp add: defs)
  have h3: "fetch_account env_orphan (BLIZZARD_API_REGION env_orphan) (LOCALE env_orphan)
     (u_access_token user1) = Responds 200 ?p"
    by (simp add: defs)
  have h4: "sb_data (characters_select env_orphan (u_id user1)) = Some ?existing"
    by (simp add: defs)
  have ac: "allCharacters_of ?p = [thrall]"
    by (simp add: allCharacters_of_def)
  have h5: "\<forall>c \<in> set (allCharacters_of ?p).
      CHR ''|'' \<notin> set (rc_name c) \<and> CHR ''|'' \<notin> set (rc_realm_slug c)"
    unfolding ac by (simp add: thrall_def)
  have h6: "\<forall>ch \<in> set ?existing.
      CHR ''|'' \<notin> set (ec_name ch) \<and> CHR ''|'' \<notin> set (ec_realm_slug ch)"
    by (simp add: stored_thrall_def stored_garrosh_def stored_thrall_area52_def)
  have k1: "(ec_name stored_thrall_area52, ec_realm_slug stored_thrall_area52,
      ec_region stored_thrall_area52)
     \<notin> (\<lambda>c. (rc_name c, rc_realm_slug c, BLIZZARD_API_REGION env_orphan)) ` set [thrall]"
    by (simp add: thrall_def stored_thrall_area52_def)
  have k2: "(ec_name stored_garrosh, ec_realm_slug stored_garrosh, ec_region stored_garrosh)
     \<notin> (\<lambda>c. (rc_name c, rc_realm_slug c, BLIZZARD_API_REGION env_orphan)) ` set [thrall]"
    by (simp add: thrall_def stored_garrosh_def)
  have g1: "stored_thrall_area52 \<in> set ?existing" and g2: "stored_garrosh \<in> set ?existing"
    by simp_all
  note inst = orphans_of_the_user_are_deleted [OF h1 h2 h3 h4 h5 h6, THEN conjunct1, unfolded ac]
  from inst [THEN bspec, OF g1] k1
  have d1: "DeleteCharacter (u_id user1) (ec_name stored_thrall_area52)
      (ec_realm_slug stored_thrall_area52) (ec_region stored_thrall_area52) \<in> set ?tr"
    by (rule mp)
  from inst [THEN bspec, OF g2] k2
  have d2: "DeleteCharacter (u_id user1) (ec_name stored_garrosh) (ec_realm_slug stored_garrosh)
      (ec_region stored_garrosh) \<in> set ?tr"
    by (rule mp)
  show ?thesis
    by (intro conjI h1 h2 h3 h4 k1 d1 k2 d2)
qed

subsection \<open>The configured region\<close>

text \<open>
  C10. Let \<open>region\<close> be the configured region of the run: the value of the variable
  \<^verbatim>\<open>BLIZZARD_API_REGION\<close>, or \<^verbatim>\<open>us\<close> when it is unset or empty. Every guild row and every
  character row that the run sends to the store carries that region, whatever region the
  account summary may report for a character (\<open>rc_region\<close>); and the roster keys of the
  cleanup are built with it: in a run that answers 200 a row listed as owned by the user
  is deleted exactly when its joined key differs from the key of every roster character
  joined with the configured region.
\<close>

theorem written_rows_carry_configured_region:
  assumes "region = (case env_region e of None \<Rightarrow> ''us'' | Some r \<Rightarrow> if r = [] then ''us'' else r)"
  shows "(\<forall>rows. UpsertGuilds rows \<in> set (snd (handler e req)) \<longrightarrow>
            (\<forall>g \<in> set rows. g_region g = region)) \<and>
         (\<forall>rows. UpsertCharacters rows \<in> set (snd (handler e req)) \<longrightarrow>
            (\<forall>c \<in> set rows. c_region c = region)) \<and>
         (\<forall>tag n u st p existingChars.
            fst (handler e req) = SyncCompleted tag n \<longrightarrow>
            sb_data (users_select e (userFilter req)) = Some u \<longrightarrow>
            fetch_account e region (LOCALE e) (u_access_token u) = Responds st p \<longrightarrow>
            sb_data (characters_select e (u_id u)) = Some existingChars \<longrightarrow>
            (\<forall>ch \<in> set existingChars.
               (DeleteCharacter (u_id u) (ec_name ch) (ec_realm_slug ch) (ec_region ch)
                  \<in> set (snd (handler e req))) =
               (\<forall>c \<in> set (allCharacters_of p).
                  ec_name ch @ ''|'' @ ec_realm_slug ch @ ''|'' @ ec_region ch \<noteq>
                  rc_name c @ ''|'' @ rc_realm_slug c @ ''|'' @ region)))"
proof -
  from assms have R: "region = BLIZZARD_API_REGION e"
    by (simp add: BLIZZARD_API_REGION_def or_default_def)
  have guilds: "g_region g = BLIZZARD_API_REGION e"
    if "UpsertGuilds rows \<in> set (snd (handler e req))" and g: "g \<in> set rows" for rows g
  proof -
    from handler_guild_rows [OF that(1)] obtain p where
      "rows = guildsToUpsert
         (concat (map (\<lambda>ch. pushedGuilds e (charProfileRes e ch)) (allCharacters_of p)))"
      by auto
    with g have "g \<in> set (guildsToUpsert
        (concat (map (\<lambda>ch. pushedGuilds e (charProfileRes e ch)) (allCharacters_of p))))"
      by simp
    then have "g \<in> set (concat (map (\<lambda>ch. pushedGuilds e (charProfileRes e ch)) (allCharacters_of p)))"
      by (rule subsetD [OF guildsToUpsert_subset])
    then obtain ch where "g \<in> set (pushedGuilds e (charProfileRes e ch))" by auto
    then show ?thesis by (rule pushedGuilds_region)
  qed
  have chars: "c_region c = BLIZZARD_API_REGION e"
    if "UpsertCharacters rows \<in> set (snd (handler e req))" and "c \<in> set rows" for rows c
    using handler_char_rows [OF that(1)] that(2) by (auto simp: charRow_def)
  have deletes:
    "(DeleteCharacter (u_id u) (ec_name ch) (ec_realm_slug ch) (ec_region ch)
        \<in> set (snd (handler e req))) =
     (\<forall>c \<in> set (allCharacters_of p).
        ec_name ch @ ''|'' @ ec_realm_slug ch @ ''|'' @ ec_region ch \<noteq>
        rc_name c @ ''|'' @ rc_realm_slug c @ ''|'' @ BLIZZARD_API_REGION e)"
    if f: "fst (handler e req) = SyncCompleted tag n"
      and u: "sb_data (users_select e (userFilter req)) = Some u"
      and p: "fetch_account e (BLIZZARD_API_REGION e) (LOCALE e) (u_access_token u) = Responds st p"
      and l: "sb_data (characters_select e (u_id u)) = Some existingChars"
      and ch: "ch \<in> set existingChars"
    for tag n u st p existingChars ch
    unfolding completed_deletes [OF f u p] cleanup_set l using ch
    by (auto simp: currentCharKeys_def composite_key_def)
  show ?thesis
    unfolding R using guilds chars deletes by blast
qed

theorem written_rows_carry_configured_region_witness:
  "''kr'' = (case env_region env_kr of None \<Rightarrow> ''us'' | Some r \<Rightarrow> if r = [] then ''us'' else r) \<and>
   rc_region thrall = Some ''eu'' \<and>
   snd (handler env_kr req1) =
     [SelectUser (ById ''u1''), FetchAccount ''kr'' ''en_US'' ''tok'',
      FetchCharacter ''kr'' ''icecrown'' ''thrall'',
      UpsertGuilds [\<lparr> g_name = ''Horde Vanguard'', g_realm_slug = ''icecrown'', g_region = ''kr'' \<rparr>],
      UpsertCharacters [(charRow env_kr user1 thrall)\<lparr> c_guild_id := None \<rparr>],
      SelectCharacters ''u1'',
      DeleteCharacter ''u1'' ''Thrall'' ''icecrown'' ''us''] \<and>
   g_region \<lparr> g_name = ''Horde Vanguard'', g_realm_slug = ''icecrown'', g_region = ''kr'' \<rparr> = ''kr'' \<and>
   c_region ((charRow env_kr user1 thrall)\<lparr> c_guild_id := None \<rparr>) = ''kr'' \<and>
   DeleteCharacter (u_id user1) (ec_name stored_thrall) (ec_realm_slug stored_thrall)
     (ec_region stored_thrall) \<in> set (snd (handler env_kr req1)) \<and>
   DeleteCharacter (u_id user1) (ec_name stored_thrall_kr) (ec_realm_slug stored_thrall_kr)
     (ec_region stored_thrall_kr) \<notin> set (snd (handler env_kr req1))"
proof -
  let ?g = "\<lparr> g_name = ''Horde Vanguard'', g_realm_slug = ''icecrown'', g_region = ''kr'' \<rparr>"
  let ?c = "(charRow env_kr user1 thrall)\<lparr> c_guild_id := None \<rparr>"
  let ?p = "\<lparr> wow_accounts = Some [\<lparr> wa_characters = Some [thrall] \<rparr>] \<rparr>"
  note defs = env_kr_def example_env_def user1_def req1_def thrall_def horde_vanguard_def
    stored_thrall_def stored_thrall_kr_def
  have h: "''kr'' = (case env_region env_kr of None \<Rightarrow> ''us'' | Some r \<Rightarrow> if r = [] then ''us'' else r)"
    by (simp add: defs)
  have pr: "rc_region thrall = Some ''eu''"
    by (simp add: thrall_def)
  have tr: "snd (handler env_kr req1) =
     [SelectUser (ById ''u1''), FetchAccount ''kr'' ''en_US'' ''tok'',
      FetchCharacter ''kr'' ''icecrown'' ''thrall'',
      UpsertGuilds [?g], UpsertCharacters [?c], SelectCharacters ''u1'',
      DeleteCharacter ''u1'' ''Thrall'' ''icecrown'' ''us'']"
    by (simp add: run_defs defs)
  have f: "fst (handler env_kr req1) = SyncCompleted ''Tag#1'' 1"
    by (simp add: run_defs defs)
  have u: "sb_data (users_select env_kr (userFilter req1)) = Some user1"
    by (simp add: defs)
  have p: "fetch_account env_kr ''kr'' (LOCALE env_kr) (u_access_token user1) = Responds 200 ?p"
    by (simp add: defs)
  have l: "sb_data (characters_select env_kr (u_id user1)) = Some [stored_thrall, stored_thrall_kr]"
    by (simp add: defs)
  have ac: "allCharacters_of ?p = [thrall]"
    by (simp add: allCharacters_of_def)
  have m1: "UpsertGuilds [?g] \<in> set (snd (handler env_kr req1))"
    and m2: "UpsertCharacters [?c] \<in> set (snd (handler env_kr req1))"
    unfolding tr by simp_all
  have e1: "?g \<in> set [?g]" and e2: "?c \<in> set [?c]"
    by simp_all
  have s1: "stored_thrall \<in> set [stored_thrall, stored_thrall_kr]"
    and s2: "stored_thrall_kr \<in> set [stored_thrall, stored_thrall_kr]"
    by simp_all
  note inst = written_rows_carry_configured_region [OF h, of req1]
  note guilds = inst [THEN conjunct1, rule_format, OF m1 e1]
  note chars = inst [THEN conjunct2, THEN conjunct1, rule_format, OF m2 e2]
  note del1 = inst [THEN conjunct2, THEN conjunct2, rule_format, OF f u p l s1, unfolded ac]
  note del2 = inst [THEN conjunct2, THEN conjunct2, rule_format, OF f u p l s2, unfolded ac]
  have d1: "DeleteCharacter (u_id user1) (ec_name stored_thrall) (ec_realm_slug stored_thrall)
     (ec_region stored_thrall) \<in> set (snd (handler env_kr req1))"
    unfolding del1 by (simp add: thrall_def stored_thrall_def)
  have d2: "DeleteCharacter (u_id user1) (ec_name stored_thrall_kr) (ec_realm_slug stored_thrall_kr)
     (ec_region stored_thrall_kr) \<notin> set (snd (handler env_kr req1))"
    unfolding del2 by (simp add: thrall_def stored_thrall_kr_def)
  show ?thesis
    by (intro conjI h pr tr guilds chars d1 d2)
qed

subsection \<open>Case of the names\<close>

text \<open>
  C8, as claimed: whenever character keys are compared, the name is lowercased for the
  comparison. The handler does not do so: here the roster holds Thrall, the store lists
  the user's row \<^verbatim>\<open>thrall\<close> on the same realm and region, the two have the same
  case-normalized key, and the cleanup still treats the row as absent from the roster
  and deletes it.
\<close>

theorem cleanup_comparison_is_case_sensitive:
  "naturalKey_spec env_lower_case (ec_name stored_thrall_lower)
     (ec_realm_slug stored_thrall_lower) (ec_region stored_thrall_lower) =
   naturalKey_spec env_lower_case (rc_name thrall) (rc_realm_slug thrall)
     (BLIZZARD_API_REGION env_lower_case) \<and>
   allCharacters_of \<lparr> wow_accounts = Some [\<lparr> wa_characters = Some [thrall] \<rparr>] \<rparr> = [thrall] \<and>
   DeleteCharacter ''u1'' ''thrall'' ''icecrown'' ''us'' \<in> set (snd (handler env_lower_case req1))"
  by (simp add: run_defs env_lower_case_def example_env_def user1_def req1_def thrall_def stored_thrall_lower_def naturalKey_spec_def)

text \<open>
  C8, amended: keys are compared exactly as the strings are, with the name as stored on
  one side and as the account summary reports it on the other. In a run that answers 200
  a listed row is deleted precisely when its joined key differs from that of every roster
  character; the name is lowercased, by the runtime's \<^verbatim>\<open>toLowerCase\<close>, only in the
  character profile request; the character rows sent to the store carry the names as
  reported.
\<close>

theorem keys_are_compared_as_reported:
  assumes "handler e req = (SyncCompleted tag n, tr)"
    and "sb_data (users_select e (userFilter req)) = Some u"
    and "fetch_account e (BLIZZARD_API_REGION e) (LOCALE e) (u_access_token u) = Responds st p"
    and "sb_data (characters_select e (u_id u)) = Some existingChars"
  shows "(\<forall>ch \<in> set existingChars.
            (DeleteCharacter (u_id u) (ec_name ch) (ec_realm_slug ch) (ec_region ch) \<in> set tr) =
            (\<forall>c \<in> set (allCharacters_of p).
               ec_name ch @ ''|'' @ ec_realm_slug ch @ ''|'' @ ec_region ch \<noteq>
               rc_name c @ ''|'' @ rc_realm_slug c @ ''|'' @ BLIZZARD_API_REGION e)) \<and>
         (\<forall>batch. UpsertCharacters batch \<in> set tr \<longrightarrow>
            map c_name batch = map rc_name (allCharacters_of p)) \<and>
         (\<forall>g s nm. FetchCharacter g s nm \<in> set tr \<longrightarrow>
            (\<exists>c \<in> set (allCharacters_of p). s = rc_realm_slug c \<and> nm = toLowerCase e (rc_name c)))"
proof (intro conjI ballI allI impI)
  from assms(1) have f: "fst (handler e req) = SyncCompleted tag n" and tr: "tr = snd (handler e req)"
    by simp_all
  note hc = handler_completed [OF f assms(2)]
  note sc = sync_completed [OF hc [THEN conjunct1] assms(3)]
  {
    fix ch
    assume "ch \<in> set existingChars"
    then show "(DeleteCharacter (u_id u) (ec_name ch) (ec_realm_slug ch) (ec_region ch) \<in> set tr) =
            (\<forall>c \<in> set (allCharacters_of p).
               ec_name ch @ ''|'' @ ec_realm_slug ch @ ''|'' @ ec_region ch \<noteq>
               rc_name c @ ''|'' @ rc_realm_slug c @ ''|'' @ BLIZZARD_API_REGION e)"
      unfolding tr completed_deletes [OF f assms(2,3)] cleanup_set assms(4)
      by (auto simp: currentCharKeys_def composite_key_def)
  next
    fix batch
    assume "UpsertCharacters batch \<in> set tr"
    with tr have "UpsertCharacters batch \<in> set (snd (handler e req))" by simp
    from handler_char_rows [OF this] assms(2,3)
    show "map c_name batch = map rc_name (allCharacters_of p)"
      by (auto simp: charRow_def)
  next
    fix g s nm
    assume "FetchCharacter g s nm \<in> set tr"
    moreover have "FetchCharacter g s nm \<notin> set (if b then [] else [UpsertGuilds rows])" for b rows
      by simp
    ultimately have "FetchCharacter g s nm \<in> set (fst (detail_loop e u (allCharacters_of p)))"
      using tr hc sc by (auto simp: cleanup_set)
    with detail_loop_fst [of e u "allCharacters_of p"]
    show "\<exists>c \<in> set (allCharacters_of p). s = rc_realm_slug c \<and> nm = toLowerCase e (rc_name c)"
      by auto
  }
qed

theorem keys_are_compared_as_reported_witness:
  "handler env_lower_case req1 =
     (SyncCompleted ''Tag#1'' 1,
      [SelectUser (ById ''u1''), FetchAccount ''us'' ''en_US'' ''tok'',
       FetchCharacter ''us'' ''icecrown'' ''thrall'',
       UpsertCharacters [(charRow env_lower_case user1 thrall)\<lparr> c_guild_id := None \<rparr>],
       SelectCharacters ''u1'',
       DeleteCharacter ''u1'' ''thrall'' ''icecrown'' ''us'']) \<and>
   sb_data (users_select env_lower_case (userFilter req1)) = Some user1 \<and>
   fetch_account env_lower_case (BLIZZARD_API_REGION env_lower_case) (LOCALE env_lower_case)
     (u_access_token user1) =
     Responds 200 \<lparr> wow_accounts = Some [\<lparr> wa_characters = Some [thrall] \<rparr>] \<rparr> \<and>
   sb_data (characters_select env_lower_case (u_id user1)) = Some [stored_thrall_lower] \<and>
   map c_name [(charRow env_lower_case user1 thrall)\<lparr> c_guild_id := None \<rparr>] = [''Thrall''] \<and>
   DeleteCharacter (u_id user1) (ec_name stored_thrall_lower) (ec_realm_slug stored_thrall_lower)
       (ec_region stored_thrall_lower)
     \<in> set [SelectUser (ById ''u1''), FetchAccount ''us'' ''en_US'' ''tok'',
       FetchCharacter ''us'' ''icecrown'' ''thrall'',
       UpsertCharacters [(charRow env_lower_case user1 thrall)\<lparr> c_guild_id := None \<rparr>],
       SelectCharacters ''u1'',
       DeleteCharacter ''u1'' ''thrall'' ''icecrown'' ''us'']"
proof -
  let ?batch = "[(charRow env_lower_case user1 thrall)\<lparr> c_guild_id := None \<rparr>]"
  let ?tr = "[SelectUser (ById ''u1''), FetchAccount ''us'' ''en_US'' ''tok'',
       FetchCharacter ''us'' ''icecrown'' ''thrall'',
       UpsertCharacters ?batch,
       SelectCharacters ''u1'',
       DeleteCharacter ''u1'' ''thrall'' ''icecrown'' ''us'']"
  let ?p = "\<lparr> wow_accounts = Some [\<lparr> wa_characters = Some [thrall] \<rparr>] \<rparr>"
  have h1: "handler env_lower_case req1 = (SyncCompleted ''Tag#1'' 1, ?tr)"
    by (simp add: run_defs env_lower_case_def example_env_def user1_def req1_def thrall_def stored_thrall_lower_def)
  have h2: "sb_data (users_select env_lower_case (userFilter req1)) = Some user1"
    by (simp add: env_lower_case_def example_env_def user1_def req1_def thrall_def stored_thrall_lower_def)
  have h3: "fetch_account env_lower_case (BLIZZARD_API_REGION env_lower_case)
     (LOCALE env_lower_case) (u_access_token user1) = Responds 200 ?p"
    by (simp add: env_lower_case_def example_env_def user1_def req1_def thrall_def stored_thrall_lower_def)
  have h4: "sb_data (characters_select env_lower_case (u_id user1)) = Some [stored_thrall_lower]"
    by (simp add: env_lower_case_def example_env_def user1_def req1_def thrall_def stored_thrall_lower_def)
  have ac: "allCharacters_of ?p = [thrall]"
    by (simp add: allCharacters_of_def)
  have g: "stored_thrall_lower \<in> set [stored_thrall_lower]"
    by simp
  have k: "\<forall>c \<in> set [thrall].
      ec_name stored_thrall_lower @ ''|'' @ ec_realm_slug stored_thrall_lower @ ''|'' @
        ec_region stored_thrall_lower \<noteq>
      rc_name c @ ''|'' @ rc_realm_slug c @ ''|'' @ BLIZZARD_API_REGION env_lower_case"
    by (simp add: env_lower_case_def example_env_def user1_def req1_def thrall_def stored_thrall_lower_def)
  have b: "UpsertCharacters ?batch \<in> set ?tr"
    by simp
  note inst = keys_are_compared_as_reported [OF h1 h2 h3 h4, unfolded ac]
  from inst [THEN conjunct1, THEN bspec, OF g] k
  have d: "DeleteCharacter (u_id user1) (ec_name stored_thrall_lower)
       (ec_realm_slug stored_thrall_lower) (ec_region stored_thrall_lower) \<in> set ?tr"
    by (rule iffD2)
  from inst [THEN conjunct2, THEN conjunct1, THEN spec, THEN mp, OF b]
  have nm: "map c_name ?batch = [''Thrall'']"
    by (simp add: thrall_def)
  show ?thesis
    by (intro conjI h1 h2 h3 h4 nm d)
qed

subsection \<open>An empty roster\<close>

text \<open>
  C7, as claimed: a run whose roster is empty issues no character write. The handler
  guards the guild upsert with \<^verbatim>\<open>guildRows.length > 0\<close> but not the character upsert:
  with an empty roster it still sends the (empty) batch to the store.
\<close>

theorem empty_roster_still_issues_character_upsert:
  "allCharacters_of \<lparr> wow_accounts = Some [\<lparr> wa_characters = Some [] \<rparr>] \<rparr> = [] \<and>
   fetch_account env_empty_roster ''us'' ''en_US'' ''tok'' =
     Responds 200 \<lparr> wow_accounts = Some [\<lparr> wa_characters = Some [] \<rparr>] \<rparr> \<and>
   UpsertCharacters [] \<in> set (snd (handler env_empty_roster req1)) \<and>
   is_write (UpsertCharacters [])"
  by (simp add: run_defs env_empty_roster_def example_env_def user1_def req1_def stored_thrall_def stored_garrosh_def)

text \<open>
  C7, amended: a run whose fetched roster is empty issues no guild upsert and issues the
  character upsert with an empty batch, so no character row is written. If the store
  answers that upsert with an error the run ends with 500; otherwise it answers 200 with
  the count 0 and the cleanup deletes every row the store lists as owned by the user.
\<close>

theorem empty_roster_run:
  assumes "\<not> (falsy (user_id_param req) \<and> falsy (battlenet_id_param req))"
    and "sb_error (users_select e (userFilter req)) = None"
    and "sb_data (users_select e (userFilter req)) = Some u"
    and "fetch_account e (BLIZZARD_API_REGION e) (LOCALE e) (u_access_token u) = Responds st p"
    and "ok st"
    and "allCharacters_of p = []"
  shows "handler e req =
     (if sb_error (characters_upsert e []) \<noteq> None
      then (SyncFailed,
            [SelectUser (userFilter req),
             FetchAccount (BLIZZARD_API_REGION e) (LOCALE e) (u_access_token u),
             UpsertCharacters []])
      else (SyncCompleted (u_battletag u) 0,
            [SelectUser (userFilter req),
             FetchAccount (BLIZZARD_API_REGION e) (LOCALE e) (u_access_token u),
             UpsertCharacters [],
             SelectCharacters (u_id u)] @
            map (\<lambda>ch. DeleteCharacter (u_id u) (ec_name ch) (ec_realm_slug ch) (ec_region ch))
              (case sb_data (characters_select e (u_id u)) of
                 None \<Rightarrow> []
               | Some existingChars \<Rightarrow> existingChars)))"
  using assms
  by (cases "sb_data (characters_select e (u_id u))"; cases "sb_error (characters_upsert e [])")
     (simp_all add: handler_eq sync_eq store_phase_eq link_and_store_eq cleanup_def
        currentCharKeys_def)

theorem empty_roster_run_witness:
  "\<not> (falsy (user_id_param req1) \<and> falsy (battlenet_id_param req1)) \<and>
   sb_error (users_select env_empty_roster (userFilter req1)) = None \<and>
   sb_data (users_select env_empty_roster (userFilter req1)) = Some user1 \<and>
   fetch_account env_empty_roster (BLIZZARD_API_REGION env_empty_roster)
     (LOCALE env_empty_roster) (u_access_token user1) =
     Responds 200 \<lparr> wow_accounts = Some [\<lparr> wa_characters = Some [] \<rparr>] \<rparr> \<and>
   ok 200 \<and>
   allCharacters_of \<lparr> wow_accounts = Some [\<lparr> wa_characters = Some [] \<rparr>] \<rparr> = [] \<and>
   handler env_empty_roster req1 =
     (SyncCompleted ''Tag#1'' 0,
      [SelectUser (ById ''u1''), FetchAccount ''us'' ''en_US'' ''tok'', UpsertCharacters [],
       SelectCharacters ''u1'',
       DeleteCharacter ''u1'' ''Thrall'' ''icecrown'' ''us'',
       DeleteCharacter ''u1'' ''Garrosh'' ''icecrown'' ''us''])"
proof -
  let ?p = "\<lparr> wow_accounts = Some [\<lparr> wa_characters = Some [] \<rparr>] \<rparr>"
  have h1: "\<not> (falsy (user_id_param req1) \<and> falsy (battlenet_id_param req1))"
    by (simp add: falsy_def req1_def)
  have h2: "sb_error (users_select env_empty_roster (userFilter req1)) = None"
    by (simp add: env_empty_roster_def example_env_def user1_def req1_def stored_thrall_def stored_garrosh_def)
  have h3: "sb_data (users_select env_empty_roster (userFilter req1)) = Some user1"
    by (simp add: env_empty_roster_def example_env_def user1_def req1_def stored_thrall_def stored_garrosh_def)
  have h4: "fetch_account env_empty_roster (BLIZZARD_API_REGION env_empty_roster)
     (LOCALE env_empty_roster) (u_access_token user1) = Responds 200 ?p"
    by (simp add: env_empty_roster_def example_env_def user1_def req1_def stored_thrall_def stored_garrosh_def)
  have h5: "ok 200"
    by (simp add: ok_def)
  have h6: "allCharacters_of ?p = []"
    by (simp add: allCharacters_of_def)
  have v: "userFilter req1 = ById ''u1''" "BLIZZARD_API_REGION env_empty_roster = ''us''"
    "LOCALE env_empty_roster = ''en_US''" "u_access_token user1 = ''tok''"
    "u_id user1 = ''u1''" "u_battletag user1 = ''Tag#1''"
    "sb_error (characters_upsert env_empty_roster []) = None"
    "sb_data (characters_select env_empty_roster ''u1'') = Some [stored_thrall, stored_garrosh]"
    by (simp_all add: env_empty_roster_def example_env_def user1_def req1_def stored_thrall_def stored_garrosh_def userFilter_def falsy_def BLIZZARD_API_REGION_def LOCALE_def
        or_default_def)
  from empty_roster_run [OF h1 h2 h3 h4 h5 h6]
  have r: "handler env_empty_roster req1 =
     (SyncCompleted ''Tag#1'' 0,
      [SelectUser (ById ''u1''), FetchAccount ''us'' ''en_US'' ''tok'', UpsertCharacters [],
       SelectCharacters ''u1'',
       DeleteCharacter ''u1'' ''Thrall'' ''icecrown'' ''us'',
       DeleteCharacter ''u1'' ''Garrosh'' ''icecrown'' ''us''])"
    by (simp add: v stored_thrall_def stored_garrosh_def)
  show ?thesis
    by (intro conjI h1 h2 h3 h4 h5 h6 r)
qed

subsection \<open>Character profile requests that fail\<close>

lemma store_phase_guild_failed:
  assumes "grs \<noteq> []" and "sb_error (guilds_upsert e (guildsToUpsert grs)) \<noteq> None"
  shows "store_phase e u ac crs grs = (SyncFailed, [UpsertGuilds (guildsToUpsert grs)])"
  using assms by (simp add: store_phase_eq)

lemma store_phase_reaches_character_upsert:
  assumes "\<not> (grs \<noteq> [] \<and> sb_error (guilds_upsert e (guildsToUpsert grs)) \<noteq> None)"
    and "\<forall>c \<in> set crs. characterGuild ac grs c = None"
  shows "UpsertCharacters (map (\<lambda>c. c\<lparr> c_guild_id := None \<rparr>) crs)
           \<in> set (snd (store_phase e u ac crs grs)) \<and>
         (sb_error (characters_upsert e (map (\<lambda>c. c\<lparr> c_guild_id := None \<rparr>) crs)) = None \<longrightarrow>
            fst (store_phase e u ac crs grs) = SyncCompleted (u_battletag u) (length crs))"
  using assms
  by (cases "grs = []";
      cases "sb_error (characters_upsert e (map (\<lambda>c. c\<lparr> c_guild_id := None \<rparr>) crs))")
     (auto simp: store_phase_eq link_and_store_eq)

text \<open>
  C6, as claimed: a character whose profile request fails never aborts the run. A request
  that is answered with an error status is indeed skipped, but one that rejects (a
  transport error) throws inside the loop: here Thrall's request rejects and the run ends
  in the \<^verbatim>\<open>catch\<close> block with 500, without any character upsert.
\<close>

theorem rejected_detail_fetch_aborts_run:
  "allCharacters_of \<lparr> wow_accounts = Some [\<lparr> wa_characters = Some [thrall] \<rparr>] \<rparr> = [thrall] \<and>
   charProfileRes env_detail_rejects thrall = Rejects \<and>
   handler env_detail_rejects req1 =
     (SyncFailed,
      [SelectUser (ById ''u1''), FetchAccount ''us'' ''en_US'' ''tok'',
       FetchCharacter ''us'' ''icecrown'' ''thrall''])"
  by (simp add: run_defs env_detail_rejects_def example_env_def user1_def req1_def thrall_def)

text \<open>
  C6, amended: a character profile request that is answered with a non-success status, or
  with a profile without guild, does not abort the run. Provided that no profile request
  rejects, that the account summary entries carry no guild object and that the guild
  upsert, if issued, is not answered with an error, the run issues the character upsert
  with one row per roster character; the row of each such character is in the batch with
  a null guild reference; and if the store accepts the batch the run answers 200 and
  counts every roster character.
\<close>

theorem failed_detail_does_not_abort:
  assumes "\<not> (falsy (user_id_param req) \<and> falsy (battlenet_id_param req))"
    and "sb_error (users_select e (userFilter req)) = None"
    and "sb_data (users_select e (userFilter req)) = Some u"
    and "fetch_account e (BLIZZARD_API_REGION e) (LOCALE e) (u_access_token u) = Responds st p"
    and "ok st"
    and "\<forall>ch \<in> set (allCharacters_of p). charProfileRes e ch \<noteq> Rejects"
    and "\<forall>ch \<in> set (allCharacters_of p). rc_guild ch = None"
    and "\<forall>rows. UpsertGuilds rows \<in> set (snd (handler e req)) \<longrightarrow>
           sb_error (guilds_upsert e rows) = None"
  shows "\<exists>batch.
           UpsertCharacters batch \<in> set (snd (handler e req)) \<and>
           length batch = length (allCharacters_of p) \<and>
           (\<forall>ch \<in> set (allCharacters_of p).
              (\<exists>s prof. charProfileRes e ch = Responds s prof \<and> (\<not> ok s \<or> cp_guild prof = None)) \<longrightarrow>
              (charRow e u ch)\<lparr> c_guild_id := None \<rparr> \<in> set batch) \<and>
           (sb_error (characters_upsert e batch) = None \<longrightarrow>
              fst (handler e req) = SyncCompleted (u_battletag u) (length (allCharacters_of p)))"
proof -
  let ?ac = "allCharacters_of p"
  let ?crs = "map (charRow e u) ?ac"
  let ?grs = "concat (map (\<lambda>ch. pushedGuilds e (charProfileRes e ch)) ?ac)"
  let ?sp = "store_phase e u ?ac ?crs ?grs"
  let ?batch = "map (\<lambda>c. c\<lparr> c_guild_id := None \<rparr>) ?crs"
  from assms(1-3) have h: "handler e req = (fst (sync e u), SelectUser (userFilter req) # snd (sync e u))"
    by (simp add: handler_eq)
  from assms(4-6) have s: "sync e u =
      (fst ?sp, FetchAccount (BLIZZARD_API_REGION e) (LOCALE e) (u_access_token u) #
                fst (detail_loop e u ?ac) @ snd ?sp)"
    by (simp add: sync_eq)
  have gf: "\<not> (?grs \<noteq> [] \<and> sb_error (guilds_upsert e (guildsToUpsert ?grs)) \<noteq> None)"
  proof
    assume a: "?grs \<noteq> [] \<and> sb_error (guilds_upsert e (guildsToUpsert ?grs)) \<noteq> None"
    from store_phase_guild_failed [OF conjunct1 [OF a] conjunct2 [OF a]]
    have "?sp = (SyncFailed, [UpsertGuilds (guildsToUpsert ?grs)])" .
    with h s have "UpsertGuilds (guildsToUpsert ?grs) \<in> set (snd (handler e req))"
      by simp
    with assms(8) have "sb_error (guilds_upsert e (guildsToUpsert ?grs)) = None"
      by blast
    with a show False by blast
  qed
  have nl: "\<forall>c \<in> set ?crs. characterGuild ?ac ?grs c = None"
    using characterGuild_no_summary_guild [OF assms(7)] by simp
  note reach = store_phase_reaches_character_upsert [OF gf nl, of u]
  from reach [THEN conjunct1] s h have c1: "UpsertCharacters ?batch \<in> set (snd (handler e req))"
    by simp
  have c2: "length ?batch = length ?ac"
    by simp
  have c3: "\<forall>ch \<in> set ?ac.
      (\<exists>s prof. charProfileRes e ch = Responds s prof \<and> (\<not> ok s \<or> cp_guild prof = None)) \<longrightarrow>
      (charRow e u ch)\<lparr> c_guild_id := None \<rparr> \<in> set ?batch"
    by auto
  have c4: "sb_error (characters_upsert e ?batch) = None \<longrightarrow>
      fst (handler e req) = SyncCompleted (u_battletag u) (length ?ac)"
    using reach [THEN conjunct2] s h by simp
  show ?thesis
    by (rule exI [where x = ?batch]) (intro conjI c1 c2 c3 c4)
qed

theorem failed_detail_does_not_abort_witness:
  "charProfileRes env_mixed thrall = Responds 200 \<lparr> cp_guild = Some horde_vanguard \<rparr> \<and>
   charProfileRes env_mixed jaina = Responds 404 \<lparr> cp_guild = None \<rparr> \<and>
   charProfileRes env_mixed anduin = Responds 200 \<lparr> cp_guild = None \<rparr> \<and>
   \<not> ok 404 \<and>
   snd (handler env_mixed req1) =
     [SelectUser (ById ''u1''), FetchAccount ''us'' ''en_US'' ''tok'',
      FetchCharacter ''us'' ''icecrown'' ''thrall'',
      FetchCharacter ''us'' ''area52'' ''jaina'',
      FetchCharacter ''us'' ''area52'' ''anduin'',
      UpsertGuilds [\<lparr> g_name = ''Horde Vanguard'', g_realm_slug = ''icecrown'', g_region = ''us'' \<rparr>],
      UpsertCharacters
        [(charRow env_mixed user1 thrall)\<lparr> c_guild_id := None \<rparr>,
         (charRow env_mixed user1 jaina)\<lparr> c_guild_id := None \<rparr>,
         (charRow env_mixed user1 anduin)\<lparr> c_guild_id := None \<rparr>],
      SelectCharacters ''u1''] \<and>
   (charRow env_mixed user1 jaina)\<lparr> c_guild_id := None \<rparr> \<in>
     set [(charRow env_mixed user1 thrall)\<lparr> c_guild_id := None \<rparr>,
          (charRow env_mixed user1 jaina)\<lparr> c_guild_id := None \<rparr>,
          (charRow env_mixed user1 anduin)\<lparr> c_guild_id := None \<rparr>] \<and>
   (charRow env_mixed user1 anduin)\<lparr> c_guild_id := None \<rparr> \<in>
     set [(charRow env_mixed user1 thrall)\<lparr> c_guild_id := None \<rparr>,
          (charRow env_mixed user1 jaina)\<lparr> c_guild_id := None \<rparr>,
          (charRow env_mixed user1 anduin)\<lparr> c_guild_id := None \<rparr>] \<and>
   fst (handler env_mixed req1) = SyncCompleted ''Tag#1'' 3"
proof -
  let ?p = "\<lparr> wow_accounts = Some [\<lparr> wa_characters = Some [thrall, jaina, anduin] \<rparr>] \<rparr>"
  let ?rows = "[(charRow env_mixed user1 thrall)\<lparr> c_guild_id := None \<rparr>,
         (charRow env_mixed user1 jaina)\<lparr> c_guild_id := None \<rparr>,
         (charRow env_mixed user1 anduin)\<lparr> c_guild_id := None \<rparr>]"
  let ?tr = "[SelectUser (ById ''u1''), FetchAccount ''us'' ''en_US'' ''tok'',
      FetchCharacter ''us'' ''icecrown'' ''thrall'',
      FetchCharacter ''us'' ''area52'' ''jaina'',
      FetchCharacter ''us'' ''area52'' ''anduin'',
      UpsertGuilds [\<lparr> g_name = ''Horde Vanguard'', g_realm_slug = ''icecrown'', g_region = ''us'' \<rparr>],
      UpsertCharacters ?rows,
      SelectCharacters ''u1'']"
  have d1: "charProfileRes env_mixed thrall = Responds 200 \<lparr> cp_guild = Some horde_vanguard \<rparr>"
    and d2: "charProfileRes env_mixed jaina = Responds 404 \<lparr> cp_guild = None \<rparr>"
    and d3: "charProfileRes env_mixed anduin = Responds 200 \<lparr> cp_guild = None \<rparr>"
    by (simp_all add: run_defs env_mixed_def example_env_def user1_def req1_def thrall_def jaina_def anduin_def horde_vanguard_def)
  have n404: "\<not> ok 404"
    by (simp add: ok_def)
  have tr: "snd (handler env_mixed req1) = ?tr"
    by (simp add: run_defs env_mixed_def example_env_def user1_def req1_def thrall_def jaina_def anduin_def horde_vanguard_def)
  have h1: "\<not> (falsy (user_id_param req1) \<and> falsy (battlenet_id_param req1))"
    by (simp add: falsy_def req1_def)
  have h2: "sb_error (users_select env_mixed (userFilter req1)) = None"
    by (simp add: env_mixed_def example_env_def user1_def req1_def thrall_def jaina_def anduin_def horde_vanguard_def)
  have h3: "sb_data (users_select env_mixed (userFilter req1)) = Some user1"
    by (simp add: env_mixed_def example_env_def user1_def req1_def thrall_def jaina_def anduin_def horde_vanguard_def)
  have h4: "fetch_account env_mixed (BLIZZARD_API_REGION env_mixed) (LOCALE env_mixed)
      (u_access_token user1) = Responds 200 ?p"
    by (simp add: env_mixed_def example_env_def user1_def req1_def thrall_def jaina_def anduin_def horde_vanguard_def)
  have h5: "ok 200"
    by (simp add: ok_def)
  have ac: "allCharacters_of ?p = [thrall, jaina, anduin]"
    by (simp add: allCharacters_of_def)
  have h6: "\<forall>ch \<in> set (allCharacters_of ?p). charProfileRes env_mixed ch \<noteq> Rejects"
    unfolding ac using d1 d2 d3 by simp
  have h7: "\<forall>ch \<in> set (allCharacters_of ?p). rc_guild ch = None"
    unfolding ac by (simp add: thrall_def jaina_def anduin_def)
  have h8: "\<forall>rows. UpsertGuilds rows \<in> set (snd (handler env_mixed req1)) \<longrightarrow>
      sb_error (guilds_upsert env_mixed rows) = None"
    by (simp add: env_mixed_def example_env_def user1_def req1_def thrall_def jaina_def anduin_def horde_vanguard_def)
  from failed_detail_does_not_abort [OF h1 h2 h3 h4 h5 h6 h7 h8]
  obtain batch where b:
    "UpsertCharacters batch \<in> set (snd (handler env_mixed req1)) \<and>
     length batch = length (allCharacters_of ?p) \<and>
     (\<forall>ch \<in> set (allCharacters_of ?p).
        (\<exists>s prof. charProfileRes env_mixed ch = Responds s prof \<and> (\<not> ok s \<or> cp_guild prof = None)) \<longrightarrow>
        (charRow env_mixed user1 ch)\<lparr> c_guild_id := None \<rparr> \<in> set batch) \<and>
     (sb_error (characters_upsert env_mixed batch) = None \<longrightarrow>
        fst (handler env_mixed req1) =
          SyncCompleted (u_battletag user1) (length (allCharacters_of ?p)))" ..
  note b1 = b [THEN conjunct1]
  note b3 = b [THEN conjunct2, THEN conjunct2, THEN conjunct1]
  note b4 = b [THEN conjunct2, THEN conjunct2, THEN conjunct2]
  from b1 have batch: "batch = ?rows"
    unfolding tr by simp
  have "jaina \<in> set (allCharacters_of ?p)"
    unfolding ac by simp
  with b3 d2 n404 have r2: "(charRow env_mixed user1 jaina)\<lparr> c_guild_id := None \<rparr> \<in> set ?rows"
    unfolding batch by blast
  have "anduin \<in> set (allCharacters_of ?p)"
    unfolding ac by simp
  with b3 d3 have r3: "(charRow env_mixed user1 anduin)\<lparr> c_guild_id := None \<rparr> \<in> set ?rows"
    unfolding batch by (metis character_profile.select_convs(1))
  have "sb_error (characters_upsert env_mixed batch) = None"
    by (simp add: env_mixed_def example_env_def user1_def req1_def thrall_def jaina_def anduin_def horde_vanguard_def)
  with b4 have r4: "fst (handler env_mixed req1) = SyncCompleted ''Tag#1'' 3"
    by (simp add: ac user1_def)
  show ?thesis
    by (intro conjI d1 d2 d3 n404 tr r2 r3 r4)
qed

subsection \<open>Linking characters to guilds\<close>

text \<open>
  The character rows of every upsert carry a null guild reference: the linking loop
  either leaves the loop with the \<^verbatim>\<open>TypeError\<close> or stores \<^verbatim>\<open>null\<close>.
\<close>

lemma character_rows_never_linked:
  assumes "UpsertCharacters rows \<in> set (snd (handler e req))" and "c \<in> set rows"
  shows "c_guild_id c = None"
  using handler_char_rows [OF assms(1)] assms(2) by auto

text \<open>When the account summary does carry the guild of a character, the loop throws.\<close>

lemma summary_guild_match_throws:
  "handler env_summary_guild req1 =
     (SyncFailed,
      [SelectUser (ById ''u1''), FetchAccount ''us'' ''en_US'' ''tok'',
       FetchCharacter ''us'' ''icecrown'' ''thrall'',
       UpsertGuilds [\<lparr> g_name = ''Horde Vanguard'', g_realm_slug = ''icecrown'', g_region = ''us'' \<rparr>]])"
  by (simp add: run_defs env_summary_guild_def thrall_with_guild_def example_env_def user1_def req1_def thrall_def horde_vanguard_def)

text \<open>Every guild batch sent to the store has pairwise different keys.\<close>

lemma guild_batch_is_deduplicated:
  assumes "UpsertGuilds rows \<in> set (snd (handler e req))"
  shows "distinct (map guild_key rows)"
  using handler_guild_rows [OF assms] guildsToUpsert_distinct by auto

text \<open>
  C1. The claim: the guild id of a character row is resolved from the guild that the
  character's own profile request reports. The handler at the scenario of the
  specification: the roster is Thrall, Thrall's own profile reports the guild Horde
  Vanguard, the store persists that guild and returns its id, the id map holds the id
  under the guild's key; the character row is nevertheless upserted with a null guild
  reference, because the linking loop looks for the guild in the account summary entry
  and never consults what the profile request reported.
\<close>

theorem guild_of_own_detail_fetch_is_not_linked:
  "charProfileRes env_thrall thrall = Responds 200 \<lparr> cp_guild = Some horde_vanguard \<rparr> \<and>
   sb_data (guilds_upsert env_thrall
     [\<lparr> g_name = ''Horde Vanguard'', g_realm_slug = ''icecrown'', g_region = ''us'' \<rparr>]) =
     Some [\<lparr> sg_id = ''id-Horde Vanguard'', sg_name = ''Horde Vanguard'',
             sg_realm_slug = ''icecrown'', sg_region = ''us'' \<rparr>] \<and>
   guildIdMap_of (sb_data (guilds_upsert env_thrall
     [\<lparr> g_name = ''Horde Vanguard'', g_realm_slug = ''icecrown'', g_region = ''us'' \<rparr>]))
     ''Horde Vanguard|icecrown|us'' = Some ''id-Horde Vanguard'' \<and>
   handler env_thrall req1 =
     (SyncCompleted ''Tag#1'' 1,
      [SelectUser (ById ''u1''), FetchAccount ''us'' ''en_US'' ''tok'',
       FetchCharacter ''us'' ''icecrown'' ''thrall'',
       UpsertGuilds [\<lparr> g_name = ''Horde Vanguard'', g_realm_slug = ''icecrown'', g_region = ''us'' \<rparr>],
       UpsertCharacters
         [\<lparr> c_name = ''Thrall'', c_realm_slug = ''icecrown'', c_region = ''us'',
            c_user_id = ''u1'', c_level = 60, c_class_id = 7, c_race_id = 2,
            c_guild_id = None \<rparr>],
       SelectCharacters ''u1''])"
  by (simp add: run_defs env_thrall_def example_env_def user1_def req1_def thrall_def horde_vanguard_def)

text \<open>
  C4. The claim: guild rows are deduplicated by key before the upsert, so two characters
  that report the same guild lead to one upserted guild row and both resolve to its
  persisted id. The handler with Jaina and Anduin, whose profiles both report the guild
  Alpha on area52: one guild row is upserted and the store returns its id, but both
  character rows are upserted with a null guild reference instead of that id.
\<close>

theorem shared_guild_is_upserted_once_but_not_linked:
  "charProfileRes env_alpha jaina = Responds 200 \<lparr> cp_guild = Some alpha \<rparr> \<and>
   charProfileRes env_alpha anduin = Responds 200 \<lparr> cp_guild = Some alpha \<rparr> \<and>
   sb_data (guilds_upsert env_alpha
     [\<lparr> g_name = ''Alpha'', g_realm_slug = ''area52'', g_region = ''us'' \<rparr>]) =
     Some [\<lparr> sg_id = ''id-Alpha'', sg_name = ''Alpha'', sg_realm_slug = ''area52'',
             sg_region = ''us'' \<rparr>] \<and>
   handler env_alpha req1 =
     (SyncCompleted ''Tag#1'' 2,
      [SelectUser (ById ''u1''), FetchAccount ''us'' ''en_US'' ''tok'',
       FetchCharacter ''us'' ''area52'' ''jaina'',
       FetchCharacter ''us'' ''area52'' ''anduin'',
       UpsertGuilds [\<lparr> g_name = ''Alpha'', g_realm_slug = ''area52'', g_region = ''us'' \<rparr>],
       UpsertCharacters
         [\<lparr> c_name = ''Jaina'', c_realm_slug = ''area52'', c_region = ''us'',
            c_user_id = ''u1'', c_level = 70, c_class_id = 8, c_race_id = 1,
            c_guild_id = None \<rparr>,
          \<lparr> c_name = ''Anduin'', c_realm_slug = ''area52'', c_region = ''us'',
            c_user_id = ''u1'', c_level = 65, c_class_id = 5, c_race_id = 1,
            c_guild_id = None \<rparr>],
       SelectCharacters ''u1''])"
  by (simp add: run_defs env_alpha_def example_env_def user1_def req1_def jaina_def anduin_def alpha_def)

end
